theory Spec2Isabelle
  imports Main "HOL-Library.Word" "HOL-Library.Sublist"
begin

section \<open>Python strings and paths\<close>

text \<open>
  Python \<open>str\<close> values that are file names, extensions, format names and messages are
  modelled as \<open>string\<close>; a character stands for the code point of the same number
  (0 to 255). \<open>str.lower\<close> on that range maps A to Z and the upper-case letters of
  Latin-1 (192 to 222 without 215) to the character 32 places later.
\<close>

definition lower_char :: "char \<Rightarrow> char" where
  "lower_char c =
     (let n = (of_char c :: nat)
      in if (65 \<le> n \<and> n \<le> 90) \<or> (192 \<le> n \<and> n \<le> 222 \<and> n \<noteq> 215)
         then char_of (n + 32) else c)"

definition lower :: "string \<Rightarrow> string" where
  "lower s = map lower_char s"

text \<open>\<open>sub in s\<close> for strings.\<close>

fun str_in :: "string \<Rightarrow> string \<Rightarrow> bool" where
  "str_in sub [] = (sub = [])"
| "str_in sub (c # cs) = (prefix sub (c # cs) \<or> str_in sub cs)"

text \<open>
  \<open>s.replace(old, new)\<close>: the occurrences of \<open>old\<close> are replaced from left to right,
  without overlap; an empty \<open>old\<close> matches before every character and at the end.
\<close>

fun str_replace :: "string \<Rightarrow> string \<Rightarrow> string \<Rightarrow> string" where
  "str_replace old new [] = (if old = [] then new else [])"
| "str_replace old new (c # cs) =
     (if old = [] then new @ c # str_replace old new cs
      else if prefix old (c # cs)
        then new @ str_replace old new (drop (length old) (c # cs))
      else c # str_replace old new cs)"

text \<open>\<open>s.strip(chars)\<close>: the characters of \<open>chars\<close> are removed from both ends.\<close>

definition str_strip :: "string \<Rightarrow> string \<Rightarrow> string" where
  "str_strip chars s =
     rev (dropWhile (\<lambda>c. c \<in> set chars) (rev (dropWhile (\<lambda>c. c \<in> set chars) s)))"

text \<open>\<open>s.split(c)\<close> for a separator of one character: never an empty list.\<close>

fun split_char :: "char \<Rightarrow> string \<Rightarrow> string list" where
  "split_char c [] = [[]]"
| "split_char c (x # xs) =
     (if x = c then [] # split_char c xs
      else (case split_char c xs of
              [] \<Rightarrow> [[x]]
            | p # ps \<Rightarrow> (x # p) # ps))"

text \<open>\<open>s.rfind(c)\<close>: the index of the last occurrence, or -1.\<close>

fun find_char :: "char \<Rightarrow> string \<Rightarrow> nat option" where
  "find_char c [] = None"
| "find_char c (x # xs) =
     (if x = c then Some 0 else map_option Suc (find_char c xs))"

definition rfind_char :: "char \<Rightarrow> string \<Rightarrow> int" where
  "rfind_char c s =
     (case find_char c (rev s) of
        None \<Rightarrow> - 1
      | Some j \<Rightarrow> int (length s) - 1 - int j)"

text \<open>
  \<open>pathlib.Path(p)\<close> on a POSIX system, Python 3.13 and earlier: the path is cut at
  \<open>/\<close>, empty components and \<open>.\<close> components are dropped, \<open>name\<close> is the last
  component that is left (or the empty string), and \<open>suffix\<close> and \<open>stem\<close> cut the
  name at its last dot when that dot is neither its first nor its last character.
\<close>

definition path_name :: "string \<Rightarrow> string" where
  "path_name p =
     (let parts = filter (\<lambda>x. x \<noteq> [] \<and> x \<noteq> ''.'') (split_char CHR ''/'' p)
      in if parts = [] then [] else last parts)"

definition path_suffix :: "string \<Rightarrow> string" where
  "path_suffix p =
     (let name = path_name p; i = rfind_char CHR ''.'' name
      in if 0 < i \<and> i < int (length name) - 1 then drop (nat i) name else [])"

definition path_stem :: "string \<Rightarrow> string" where
  "path_stem p =
     (let name = path_name p; i = rfind_char CHR ''.'' name
      in if 0 < i \<and> i < int (length name) - 1 then take (nat i) name else name)"

section \<open>utils/file\_utils.py\<close>

definition document_formats :: "string list" where
  "document_formats = [''pdf'', ''doc'', ''docx'', ''txt'', ''rtf'', ''odt'']"

definition image_formats :: "string list" where
  "image_formats = [''jpg'', ''jpeg'', ''png'', ''gif'', ''webp'', ''bmp'', ''tiff'', ''svg'']"

definition audio_formats :: "string list" where
  "audio_formats = [''mp3'', ''wav'', ''m4a'', ''ogg'', ''flac'', ''aac'', ''wma'']"

definition video_formats :: "string list" where
  "video_formats = [''mp4'', ''avi'', ''mov'', ''mkv'', ''webm'', ''flv'', ''wmv'', ''3gp'']"

definition get_file_type :: "string \<Rightarrow> string" where
  "get_file_type filename =
     (let ext = drop 1 (lower (path_suffix filename))
      in if ext \<in> set document_formats then ''document''
         else if ext \<in> set image_formats then ''image''
         else if ext \<in> set audio_formats then ''audio''
         else if ext \<in> set video_formats then ''video''
         else ''unknown'')"

definition get_supported_formats :: "string \<Rightarrow> string list" where
  "get_supported_formats file_type =
     (case map_of
        [(''document'', [''pdf'', ''docx'', ''txt'']),
         (''image'', [''jpg'', ''png'', ''gif'', ''webp'', ''bmp'']),
         (''audio'', [''mp3'', ''wav'', ''m4a'']),
         (''video'', [''mp4'', ''avi'', ''mov''])] file_type of
        Some fs \<Rightarrow> fs
      | None \<Rightarrow> [])"

definition invalid_chars :: "string list" where
  "invalid_chars = [''<'', ''>'', '':'', [CHR 0x22], ''/'', [CHR 0x5C], ''|'', ''?'', ''*'']"

text \<open>
  The loop \<open>while '__' in clean_name: clean_name = clean_name.replace('__', '_')\<close>.
  It ends because every round shortens the string.
\<close>

lemma str_replace_le:
  "old \<noteq> [] \<Longrightarrow> length new \<le> length old \<Longrightarrow>
   length (str_replace old new s) \<le> length s"
proof (induction old new s rule: str_replace.induct)
  case (1 old new)
  then show ?case by simp
next
  case (2 old new c cs)
  show ?case
  proof (cases "prefix old (c # cs)")
    case True
    have "length (str_replace old new (drop (length old) (c # cs)))
            \<le> length (drop (length old) (c # cs))"
      using 2 True by simp
    moreover have "length old \<le> length (c # cs)"
      using True by (rule prefix_length_le)
    ultimately show ?thesis using True 2(4,5) by simp
  next
    case False
    then show ?thesis using 2 by auto
  qed
qed

lemma str_replace_shorter:
  "old \<noteq> [] \<Longrightarrow> length new < length old \<Longrightarrow> str_in old s \<Longrightarrow>
   length (str_replace old new s) < length s"
proof (induction old new s rule: str_replace.induct)
  case (1 old new)
  then show ?case by simp
next
  case (2 old new c cs)
  show ?case
  proof (cases "prefix old (c # cs)")
    case True
    have "length (str_replace old new (drop (length old) (c # cs)))
            \<le> length (drop (length old) (c # cs))"
      using 2 by (intro str_replace_le) auto
    moreover have "length old \<le> length (c # cs)"
      using True by (rule prefix_length_le)
    ultimately show ?thesis using True 2(4,5) by simp
  next
    case False
    then show ?thesis using 2 by auto
  qed
qed

function clean_filename_loop :: "string \<Rightarrow> string" where
  "clean_filename_loop clean_name =
     (if str_in ''__'' clean_name
      then clean_filename_loop (str_replace ''__'' ''_'' clean_name)
      else clean_name)"
  by pat_completeness auto
termination
  by (relation "measure length") (auto intro: str_replace_shorter)

declare clean_filename_loop.simps [simp del]

definition clean_filename :: "string \<Rightarrow> string" where
  "clean_filename filename =
     str_strip ''_ ''
       (clean_filename_loop
          (fold (\<lambda>char clean_name. str_replace char ''_'' clean_name)
             invalid_chars filename))"

section \<open>utils/validation.py\<close>

text \<open>
  \<open>validate_file_size\<close> returns a flag and a message. The message of the failing branch
  is an f-string that prints the size and the limit in MB as floats; the model keeps
  what it is built from: the size in bytes, the category and the limit in bytes.
\<close>

datatype size_message = Size_exceeds int string int | Size_valid

definition size_limits :: "(string \<times> int) list" where
  "size_limits =
     [(''document'', 100 * 1024 * 1024),
      (''image'', 100 * 1024 * 1024),
      (''audio'', 100 * 1024 * 1024),
      (''video'', 50 * 1024 * 1024)]"

definition validate_file_size :: "int \<Rightarrow> string \<Rightarrow> bool \<times> size_message" where
  "validate_file_size file_size_bytes file_type =
     (let limit = (case map_of size_limits file_type of
                     Some l \<Rightarrow> l
                   | None \<Rightarrow> 100 * 1024 * 1024)
      in if file_size_bytes > limit
         then (False, Size_exceeds file_size_bytes file_type limit)
         else (True, Size_valid))"

datatype type_message = Unsupported_file_type string | File_type_supported string

definition validate_file_type :: "string \<Rightarrow> bool \<times> type_message" where
  "validate_file_type filename =
     (let file_type = get_file_type filename
      in if file_type = ''unknown''
         then (False, Unsupported_file_type (lower (path_suffix filename)))
         else (True, File_type_supported file_type))"

section \<open>Bytes, text and exceptions\<close>

type_synonym byte = "8 word"
type_synonym bytes = "byte list"

text \<open>
  The contents of a text file, once decoded, and the text that the document libraries
  extract are Python \<open>str\<close> values over all of Unicode: lists of code points.
\<close>

type_synonym unicode = "nat list"

text \<open>
  An exception is its class and its message (\<open>str(e)\<close>). The classes are the ones
  the source raises or catches by name; every other class that the libraries and the
  operating system raise is \<open>Other_error\<close>. All of them are subclasses of
  \<open>Exception\<close>, so \<open>except Exception\<close> catches each.
\<close>

datatype exn_class =
  Exception | ValueError | FileNotFoundError | FileExistsError | TimeoutExpired
  | SubprocessError | UnicodeEncodeError | Other_error

datatype exn = Exn (exn_class_of: exn_class) (str_of: string)

subsection \<open>UTF-8\<close>

text \<open>
  \<open>bytes.decode('utf-8', errors='ignore')\<close> as CPython does it: a malformed sequence
  is dropped up to the byte that breaks it, and a sequence cut off by the end of the data
  is dropped whole. Bytes are read as numbers below 256.
\<close>

definition is_continuation :: "nat \<Rightarrow> bool" where
  "is_continuation b = (0x80 \<le> b \<and> b < 0xC0)"

definition second_ok3 :: "nat \<Rightarrow> nat \<Rightarrow> bool" where
  "second_ok3 b0 b1 =
     (is_continuation b1 \<and> \<not> (if b1 < 0xA0 then b0 = 0xE0 else b0 = 0xED))"

definition second_ok4 :: "nat \<Rightarrow> nat \<Rightarrow> bool" where
  "second_ok4 b0 b1 =
     (is_continuation b1 \<and> \<not> (if b1 < 0x90 then b0 = 0xF0 else b0 = 0xF4))"

text \<open>
  One step of the decoder: the code point when a sequence is well-formed, and the number
  of bytes taken (for a code point) or dropped (for an error).
\<close>

definition utf8_step :: "nat list \<Rightarrow> nat option \<times> nat" where
  "utf8_step data =
     (case data of
        [] \<Rightarrow> (None, 0)
      | b0 # r0 \<Rightarrow>
          if b0 < 0x80 then (Some b0, 1)
          else if b0 < 0xC2 then (None, 1)
          else if b0 < 0xE0 then
            (case r0 of
               [] \<Rightarrow> (None, length data)
             | b1 # r1 \<Rightarrow>
                 if is_continuation b1
                 then (Some ((b0 - 0xC0) * 64 + (b1 - 0x80)), 2)
                 else (None, 1))
          else if b0 < 0xF0 then
            (case r0 of
               [] \<Rightarrow> (None, length data)
             | b1 # r1 \<Rightarrow>
                 if \<not> second_ok3 b0 b1 then (None, 1)
                 else
                   (case r1 of
                      [] \<Rightarrow> (None, length data)
                    | b2 # r2 \<Rightarrow>
                        if is_continuation b2
                        then (Some ((b0 - 0xE0) * 4096 + (b1 - 0x80) * 64 + (b2 - 0x80)), 3)
                        else (None, 2)))
          else if b0 < 0xF5 then
            (case r0 of
               [] \<Rightarrow> (None, length data)
             | b1 # r1 \<Rightarrow>
                 if \<not> second_ok4 b0 b1 then (None, 1)
                 else
                   (case r1 of
                      [] \<Rightarrow> (None, length data)
                    | b2 # r2 \<Rightarrow>
                        if \<not> is_continuation b2 then (None, 2)
                        else
                          (case r2 of
                             [] \<Rightarrow> (None, length data)
                           | b3 # r3 \<Rightarrow>
                               if is_continuation b3
                               then (Some ((b0 - 0xF0) * 262144 + (b1 - 0x80) * 4096
                                             + (b2 - 0x80) * 64 + (b3 - 0x80)), 4)
                               else (None, 3))))
          else (None, 1))"

lemma utf8_step_progress: "data \<noteq> [] \<Longrightarrow> 0 < snd (utf8_step data)"
  by (simp add: utf8_step_def split: list.split)

function utf8_decode_ignore :: "nat list \<Rightarrow> unicode" where
  "utf8_decode_ignore data =
     (if data = [] then []
      else (case fst (utf8_step data) of Some c \<Rightarrow> [c] | None \<Rightarrow> [])
             @ utf8_decode_ignore (drop (snd (utf8_step data)) data))"
  by pat_completeness auto
termination
  by (relation "measure length") (auto simp: utf8_step_progress)

declare utf8_decode_ignore.simps [simp del]

text \<open>
  A file opened in text mode with the default \<open>newline=None\<close> gives \<open>\r\n\<close> and a
  lone \<open>\r\<close> as \<open>\n\<close>.
\<close>

fun universal_newlines :: "unicode \<Rightarrow> unicode" where
  "universal_newlines [] = []"
| "universal_newlines (c # cs) =
     (if c = 13 then
        (case cs of
           [] \<Rightarrow> [10]
         | d # ds \<Rightarrow> if d = 10 then 10 # universal_newlines ds
                     else 10 # universal_newlines cs)
      else c # universal_newlines cs)"

text \<open>\<open>open(path, 'r', encoding='utf-8', errors='ignore').read()\<close> on the file's bytes.\<close>

definition read_text_ignore :: "bytes \<Rightarrow> unicode" where
  "read_text_ignore data = universal_newlines (utf8_decode_ignore (map unat data))"

text \<open>
  \<open>str.encode('utf-8')\<close>: one to four bytes for each code point; a surrogate
  (U+D800 to U+DFFF) raises \<open>UnicodeEncodeError\<close>.
\<close>

definition encode_code_point :: "nat \<Rightarrow> nat list" where
  "encode_code_point c =
     (if c < 0x80 then [c]
      else if c < 0x800 then [0xC0 + c div 64, 0x80 + c mod 64]
      else if c < 0x10000 then
        [0xE0 + c div 4096, 0x80 + (c div 64) mod 64, 0x80 + c mod 64]
      else [0xF0 + c div 262144, 0x80 + (c div 4096) mod 64,
            0x80 + (c div 64) mod 64, 0x80 + c mod 64])"

definition is_surrogate :: "nat \<Rightarrow> bool" where
  "is_surrogate c = (0xD800 \<le> c \<and> c < 0xE000)"

definition utf8_encode :: "unicode \<Rightarrow> exn + bytes" where
  "utf8_encode s =
     (if list_ex is_surrogate s
      then Inl (Exn UnicodeEncodeError ''surrogates not allowed'')
      else Inr (map of_nat (concat (map encode_code_point s))))"

section \<open>The file system and the libraries\<close>

text \<open>
  The converters read the input file, and the audio and video converters create and delete
  a temporary file. The world holds the files (path to contents), the sequence of random
  names that \<open>tempfile\<close> will try, and a record of what happened, in order.
\<close>

datatype event =
    Tmp_created string
  | Tmp_unlinked string
  | Audio_loaded string "string option"
  | Audio_exported string string "(string \<times> string) list"
  | Subprocess_run "string list" nat

record world =
  files :: "string \<rightharpoonup> bytes"
  tmp_names :: "nat \<Rightarrow> string"
  tmp_next :: nat
  events :: "event list"

text \<open>
  \<open>tempfile.NamedTemporaryFile(suffix=..., delete=False)\<close>, closed at once by the
  \<open>with\<close> block: the library tries up to \<open>TMP_MAX\<close> random names, creates the first
  one that does not exist as an empty file, and raises \<open>FileExistsError\<close> when each
  one exists.
\<close>

definition TMP_MAX :: nat where
  "TMP_MAX = 10000"

fun mkstemp_inner :: "nat \<Rightarrow> string \<Rightarrow> world \<Rightarrow> (exn + string) \<times> world" where
  "mkstemp_inner 0 sfx w =
     (Inl (Exn FileExistsError ''No usable temporary file name found''), w)"
| "mkstemp_inner (Suc k) sfx w =
     (let file = ''/tmp/tmp'' @ tmp_names w (tmp_next w) @ sfx;
          w' = w\<lparr>tmp_next := Suc (tmp_next w)\<rparr>
      in if files w file \<noteq> None then mkstemp_inner k sfx w'
         else (Inr file,
               w'\<lparr>files := (files w)(file \<mapsto> []),
                  events := events w @ [Tmp_created file]\<rparr>))"

definition NamedTemporaryFile :: "string \<Rightarrow> world \<Rightarrow> (exn + string) \<times> world" where
  "NamedTemporaryFile sfx w = mkstemp_inner TMP_MAX sfx w"

text \<open>\<open>if os.path.exists(p): os.unlink(p)\<close>.\<close>

definition unlink_if_exists :: "string \<Rightarrow> world \<Rightarrow> world" where
  "unlink_if_exists p w =
     (if files w p \<noteq> None
      then w\<lparr>files := (files w)(p := None), events := events w @ [Tmp_unlinked p]\<rparr>
      else w)"

text \<open>\<open>open(p, 'rb').read()\<close>.\<close>

definition read_bytes :: "world \<Rightarrow> string \<Rightarrow> exn + bytes" where
  "read_bytes w p =
     (case files w p of
        None \<Rightarrow> Inl (Exn FileNotFoundError
                      (''[Errno 2] No such file or directory: '' @ [CHR 0x27] @ p @ [CHR 0x27]))
      | Some d \<Rightarrow> Inr d)"

text \<open>
  What \<open>subprocess.run\<close> gives: a completed process with its return code, standard
  output and standard error, or an exception.
\<close>

datatype proc_result = Completed int string string | Raised exn

text \<open>
  The libraries and the external tool are parameters of the model. Each field is what the
  named call returns or raises, as a function of what it is given:
  \<^item> \<open>pdf_page_texts\<close>: \<open>PyPDF2.PdfReader(file).pages\<close> with \<open>extract_text()\<close> of each page;
  \<^item> \<open>docx_paragraph_texts\<close>: \<open>Document(path).paragraphs\<close> with the \<open>text\<close> of each;
  \<^item> \<open>canvas_pdf\<close>: the ReportLab canvas of \<open>_txt_to_pdf\<close> (wrapping, page breaks,
    \<open>save\<close>), from the text to the bytes of the buffer;
  \<^item> \<open>document_docx\<close>: the python-docx document of \<open>_txt_to_docx\<close> (one paragraph for
    each line, \<open>save\<close>), from the text to the bytes of the buffer;
  \<^item> \<open>image_open\<close>: \<open>Image.open\<close>; \<open>image_encode\<close>: the mode conversion and
    \<open>img.save\<close> of each \<open>_convert_to_*\<close>, named by the format given to \<open>save\<close>;
  \<^item> \<open>audio_from_file\<close>: \<open>AudioSegment.from_file(path, format)\<close> (\<open>from_mp3\<close>,
    \<open>from_wav\<close> and \<open>from_ogg\<close> are this call with the format set);
    \<open>audio_export\<close>: \<open>audio.export(path, format=..., ...)\<close>, the bytes written;
  \<^item> \<open>subprocess_run\<close>: \<open>subprocess.run(cmd, timeout=...)\<close>, with the files as the
    process leaves them.
\<close>

record ('img, 'audio) libs =
  pdf_page_texts :: "bytes \<Rightarrow> exn + unicode list"
  docx_paragraph_texts :: "bytes \<Rightarrow> exn + unicode list"
  canvas_pdf :: "unicode \<Rightarrow> exn + bytes"
  document_docx :: "unicode \<Rightarrow> exn + bytes"
  image_open :: "bytes \<Rightarrow> exn + 'img"
  image_encode :: "'img \<Rightarrow> string \<Rightarrow> exn + bytes"
  audio_from_file :: "bytes \<Rightarrow> string option \<Rightarrow> exn + 'audio"
  audio_export :: "'audio \<Rightarrow> string \<Rightarrow> (string \<times> string) list \<Rightarrow> exn + bytes"
  subprocess_run ::
    "string list \<Rightarrow> nat \<Rightarrow> (string \<rightharpoonup> bytes) \<Rightarrow> proc_result \<times> (string \<rightharpoonup> bytes)"

type_synonym artifact = "bytes \<times> string \<times> string"

section \<open>converters/document\_converter.py\<close>

definition document_get_output_filename :: "string \<Rightarrow> string \<Rightarrow> string" where
  "document_get_output_filename original_filename output_format =
     path_stem original_filename @ ''.'' @ output_format"

definition docx_mime :: string where
  "docx_mime = ''application/vnd.openxmlformats-officedocument.wordprocessingml.document''"

text \<open>A \<open>str\<close> literal of the source as text.\<close>

definition ustr :: "string \<Rightarrow> unicode" where
  "ustr s = map of_char s"

definition encode_utf8_as ::
  "unicode \<Rightarrow> string \<Rightarrow> string \<Rightarrow> exn + artifact" where
  "encode_utf8_as text_content output_filename mime =
     (case utf8_encode text_content of
        Inl e \<Rightarrow> Inl e
      | Inr d \<Rightarrow> Inr (d, output_filename, mime))"

definition txt_to_pdf :: "('img, 'audio) libs \<Rightarrow> unicode \<Rightarrow> string \<Rightarrow> exn + artifact" where
  "txt_to_pdf lib text_content output_filename =
     (case canvas_pdf lib text_content of
        Inl e \<Rightarrow> Inl (Exn Exception (''Failed to convert to PDF: '' @ str_of e))
      | Inr d \<Rightarrow> Inr (d, output_filename, ''application/pdf''))"

definition txt_to_docx :: "('img, 'audio) libs \<Rightarrow> unicode \<Rightarrow> string \<Rightarrow> exn + artifact" where
  "txt_to_docx lib text_content output_filename =
     (case document_docx lib text_content of
        Inl e \<Rightarrow> Inl (Exn Exception (''Failed to convert to DOCX: '' @ str_of e))
      | Inr d \<Rightarrow> Inr (d, output_filename, docx_mime))"

definition extract_text_from_pdf :: "('img, 'audio) libs \<Rightarrow> world \<Rightarrow> string \<Rightarrow> unicode" where
  "extract_text_from_pdf lib w pdf_path =
     (case read_bytes w pdf_path of
        Inl e \<Rightarrow> ustr ''Unable to extract text from PDF''
      | Inr d \<Rightarrow>
          (case pdf_page_texts lib d of
             Inl e \<Rightarrow> ustr ''Unable to extract text from PDF''
           | Inr pages \<Rightarrow> concat (map (\<lambda>page. page @ [10]) pages)))"

definition extract_text_from_docx :: "('img, 'audio) libs \<Rightarrow> world \<Rightarrow> string \<Rightarrow> unicode" where
  "extract_text_from_docx lib w docx_path =
     (case read_bytes w docx_path of
        Inl e \<Rightarrow> ustr ''Unable to extract text from DOCX''
      | Inr d \<Rightarrow>
          (case docx_paragraph_texts lib d of
             Inl e \<Rightarrow> ustr ''Unable to extract text from DOCX''
           | Inr paragraphs \<Rightarrow> concat (map (\<lambda>paragraph. paragraph @ [10]) paragraphs)))"

definition convert_from_txt ::
  "('img, 'audio) libs \<Rightarrow> world \<Rightarrow> string \<Rightarrow> string \<Rightarrow> string \<Rightarrow> exn + artifact" where
  "convert_from_txt lib w input_path output_format output_filename =
     (case read_bytes w input_path of
        Inl e \<Rightarrow> Inl e
      | Inr d \<Rightarrow>
          (let content = read_text_ignore d
           in if output_format = ''txt''
              then encode_utf8_as content output_filename ''text/plain''
              else if output_format = ''pdf'' then txt_to_pdf lib content output_filename
              else if output_format = ''docx'' then txt_to_docx lib content output_filename
              else Inl (Exn ValueError (''Unsupported output format: '' @ output_format))))"

definition convert_from_pdf ::
  "('img, 'audio) libs \<Rightarrow> world \<Rightarrow> string \<Rightarrow> string \<Rightarrow> string \<Rightarrow> exn + artifact" where
  "convert_from_pdf lib w input_path output_format output_filename =
     (if output_format = ''pdf''
      then (case read_bytes w input_path of
              Inl e \<Rightarrow> Inl e
            | Inr d \<Rightarrow> Inr (d, output_filename, ''application/pdf''))
      else
        (let text_content = extract_text_from_pdf lib w input_path
         in if output_format = ''txt''
            then encode_utf8_as text_content output_filename ''text/plain''
            else if output_format = ''docx'' then txt_to_docx lib text_content output_filename
            else Inl (Exn ValueError (''Unsupported output format: '' @ output_format))))"

definition convert_from_docx ::
  "('img, 'audio) libs \<Rightarrow> world \<Rightarrow> string \<Rightarrow> string \<Rightarrow> string \<Rightarrow> exn + artifact" where
  "convert_from_docx lib w input_path output_format output_filename =
     (if output_format = ''docx''
      then (case read_bytes w input_path of
              Inl e \<Rightarrow> Inl e
            | Inr d \<Rightarrow> Inr (d, output_filename, docx_mime))
      else
        (let text_content = extract_text_from_docx lib w input_path
         in if output_format = ''txt''
            then encode_utf8_as text_content output_filename ''text/plain''
            else if output_format = ''pdf'' then txt_to_pdf lib text_content output_filename
            else Inl (Exn ValueError (''Unsupported output format: '' @ output_format))))"

definition document_convert ::
  "('img, 'audio) libs \<Rightarrow> world \<Rightarrow> string \<Rightarrow> string \<Rightarrow> string \<Rightarrow> exn + artifact" where
  "document_convert lib w input_path output_format original_filename =
     (let input_ext = drop 1 (lower (path_suffix input_path));
          output_filename = document_get_output_filename original_filename output_format
      in if input_ext = ''txt''
         then convert_from_txt lib w input_path output_format output_filename
         else if input_ext = ''pdf''
         then convert_from_pdf lib w input_path output_format output_filename
         else if input_ext \<in> set [''doc'', ''docx'']
         then convert_from_docx lib w input_path output_format output_filename
         else Inl (Exn ValueError (''Unsupported input format: '' @ input_ext)))"

section \<open>converters/image\_converter.py\<close>

definition image_mime_types :: "(string \<times> string) list" where
  "image_mime_types =
     [(''jpg'', ''image/jpeg''), (''jpeg'', ''image/jpeg''), (''png'', ''image/png''),
      (''gif'', ''image/gif''), (''webp'', ''image/webp''), (''bmp'', ''image/bmp'')]"

definition image_get_output_filename :: "string \<Rightarrow> string \<Rightarrow> string" where
  "image_get_output_filename original_filename output_format =
     path_stem original_filename @ ''.'' @ lower output_format"

text \<open>
  \<open>_convert_to_jpeg\<close>, \<open>_convert_to_png\<close>, \<open>_convert_to_gif\<close>, \<open>_convert_to_webp\<close> and
  \<open>_convert_to_bmp\<close>: each encodes the image and returns the buffer, the output file name
  and the entry of \<open>mime_types\<close> for its own key.
\<close>

definition convert_to ::
  "('img, 'audio) libs \<Rightarrow> string \<Rightarrow> string \<Rightarrow> 'img \<Rightarrow> string \<Rightarrow> exn + artifact" where
  "convert_to lib save_format mime_key img output_filename =
     (case image_encode lib img save_format of
        Inl e \<Rightarrow> Inl e
      | Inr d \<Rightarrow>
          (case map_of image_mime_types mime_key of
             None \<Rightarrow> Inl (Exn Other_error mime_key)
           | Some mime \<Rightarrow> Inr (d, output_filename, mime)))"

definition image_convert ::
  "('img, 'audio) libs \<Rightarrow> world \<Rightarrow> string \<Rightarrow> string \<Rightarrow> string \<Rightarrow> exn + artifact" where
  "image_convert lib w input_path output_format original_filename =
     (let output_filename = image_get_output_filename original_filename output_format;
          attempt =
            (case read_bytes w input_path of
               Inl e \<Rightarrow> Inl e
             | Inr d \<Rightarrow>
                 (case image_open lib d of
                    Inl e \<Rightarrow> Inl e
                  | Inr img \<Rightarrow>
                      if lower output_format \<in> set [''jpg'', ''jpeg'']
                      then convert_to lib ''JPEG'' ''jpg'' img output_filename
                      else if lower output_format = ''png''
                      then convert_to lib ''PNG'' ''png'' img output_filename
                      else if lower output_format = ''gif''
                      then convert_to lib ''GIF'' ''gif'' img output_filename
                      else if lower output_format = ''webp''
                      then convert_to lib ''WebP'' ''webp'' img output_filename
                      else if lower output_format = ''bmp''
                      then convert_to lib ''BMP'' ''bmp'' img output_filename
                      else Inl (Exn ValueError
                                  (''Unsupported output format: '' @ output_format))))
      in case attempt of
           Inl e \<Rightarrow> Inl (Exn Exception (''Failed to convert image: '' @ str_of e))
         | Inr r \<Rightarrow> Inr r)"

section \<open>converters/audio\_converter.py\<close>

definition audio_mime_types :: "(string \<times> string) list" where
  "audio_mime_types =
     [(''mp3'', ''audio/mpeg''), (''wav'', ''audio/wav''), (''m4a'', ''audio/mp4''),
      (''ogg'', ''audio/ogg''), (''flac'', ''audio/flac'')]"

definition audio_get_output_filename :: "string \<Rightarrow> string \<Rightarrow> string" where
  "audio_get_output_filename original_filename output_format =
     path_stem original_filename @ ''.'' @ lower output_format"

text \<open>A call of a loader on the input file; the call is recorded.\<close>

definition load_audio ::
  "('img, 'audio) libs \<Rightarrow> string \<Rightarrow> string option \<Rightarrow> world \<Rightarrow> (exn + 'audio) \<times> world" where
  "load_audio lib input_path format w =
     (let w1 = w\<lparr>events := events w @ [Audio_loaded input_path format]\<rparr>
      in case read_bytes w input_path of
           Inl e \<Rightarrow> (Inl e, w1)
         | Inr d \<Rightarrow> (audio_from_file lib d format, w1))"

text \<open>
  The \<open>export\<close> call of \<open>_export_audio\<close> for an output format, with its keyword
  arguments; \<open>None\<close> is the \<open>else\<close> branch that raises \<open>ValueError\<close>.
\<close>

definition export_arguments :: "string \<Rightarrow> (string \<times> (string \<times> string) list) option" where
  "export_arguments output_format =
     (if output_format = ''mp3'' then Some (''mp3'', [(''bitrate'', ''192k'')])
      else if output_format = ''wav'' then Some (''wav'', [])
      else if output_format = ''m4a'' then Some (''mp4'', [(''codec'', ''aac'')])
      else if output_format = ''ogg'' then Some (''ogg'', [])
      else if output_format = ''flac'' then Some (''flac'', [])
      else None)"

text \<open>The \<open>try\<close> block of \<open>_export_audio\<close>, after the temporary file is there.\<close>

definition export_audio_body ::
  "('img, 'audio) libs \<Rightarrow> 'audio \<Rightarrow> string \<Rightarrow> string \<Rightarrow> string \<Rightarrow> world
     \<Rightarrow> (exn + artifact) \<times> world" where
  "export_audio_body lib audio output_format output_filename tmp_output_path w =
     (case export_arguments output_format of
        None \<Rightarrow> (Inl (Exn ValueError (''Unsupported output format: '' @ output_format)), w)
      | Some (format, kwargs) \<Rightarrow>
          (let w1 = w\<lparr>events := events w @ [Audio_exported tmp_output_path format kwargs]\<rparr>
           in case audio_export lib audio format kwargs of
                Inl e \<Rightarrow> (Inl e, w1)
              | Inr written \<Rightarrow>
                  (let w2 = w1\<lparr>files := (files w1)(tmp_output_path \<mapsto> written)\<rparr>
                   in case read_bytes w2 tmp_output_path of
                        Inl e \<Rightarrow> (Inl e, w2)
                      | Inr audio_data \<Rightarrow>
                          (let mime_type =
                                 (case map_of audio_mime_types output_format of
                                    Some m \<Rightarrow> m
                                  | None \<Rightarrow> ''audio/mpeg'')
                           in (Inr (audio_data, output_filename, mime_type), w2)))))"

definition export_audio ::
  "('img, 'audio) libs \<Rightarrow> 'audio \<Rightarrow> string \<Rightarrow> string \<Rightarrow> world \<Rightarrow> (exn + artifact) \<times> world" where
  "export_audio lib audio output_format output_filename w =
     (case NamedTemporaryFile (''.'' @ output_format) w of
        (Inl e, w1) \<Rightarrow> (Inl e, w1)
      | (Inr tmp_output_path, w1) \<Rightarrow>
          (case export_audio_body lib audio output_format output_filename tmp_output_path w1 of
             (r, w2) \<Rightarrow> (r, unlink_if_exists tmp_output_path w2)))"

text \<open>A load followed by the export: the body of each \<open>try\<close> of \<open>convert\<close>.\<close>

definition load_and_export ::
  "('img, 'audio) libs \<Rightarrow> string \<Rightarrow> string option \<Rightarrow> string \<Rightarrow> string \<Rightarrow> world
     \<Rightarrow> (exn + artifact) \<times> world" where
  "load_and_export lib input_path format output_format output_filename w =
     (case load_audio lib input_path format w of
        (Inl e, w1) \<Rightarrow> (Inl e, w1)
      | (Inr audio, w1) \<Rightarrow> export_audio lib audio output_format output_filename w1)"

definition specific_format :: "string \<Rightarrow> string option" where
  "specific_format input_ext =
     (if input_ext = ''mp3'' then Some ''mp3''
      else if input_ext = ''wav'' then Some ''wav''
      else if input_ext = ''m4a'' then Some ''m4a''
      else if input_ext = ''ogg'' then Some ''ogg''
      else if input_ext = ''flac'' then Some ''flac''
      else None)"

definition audio_convert ::
  "('img, 'audio) libs \<Rightarrow> string \<Rightarrow> string \<Rightarrow> string \<Rightarrow> world \<Rightarrow> (exn + artifact) \<times> world" where
  "audio_convert lib input_path output_format original_filename w =
     (let output_filename = audio_get_output_filename original_filename output_format;
          input_ext = drop 1 (lower (path_suffix input_path))
      in case load_and_export lib input_path (specific_format input_ext)
                output_format output_filename w of
           (Inr r, w1) \<Rightarrow> (Inr r, w1)
         | (Inl e, w1) \<Rightarrow>
             (case load_and_export lib input_path None output_format output_filename w1 of
                (Inr r, w2) \<Rightarrow> (Inr r, w2)
              | (Inl fallback_error, w2) \<Rightarrow>
                  (Inl (Exn Exception
                          (''Failed to convert audio: '' @ str_of e
                             @ ''. Fallback also failed: '' @ str_of fallback_error)),
                   w2)))"

section \<open>converters/video\_converter.py\<close>

definition video_mime_types :: "(string \<times> string) list" where
  "video_mime_types =
     [(''mp4'', ''video/mp4''), (''avi'', ''video/x-msvideo''), (''mov'', ''video/quicktime''),
      (''mkv'', ''video/x-matroska''), (''webm'', ''video/webm'')]"

definition video_get_output_filename :: "string \<Rightarrow> string \<Rightarrow> string" where
  "video_get_output_filename original_filename output_format =
     path_stem original_filename @ ''.'' @ lower output_format"

text \<open>A call of \<open>subprocess.run\<close>: the process may change the files; the call is recorded.\<close>

definition run_subprocess ::
  "('img, 'audio) libs \<Rightarrow> string list \<Rightarrow> nat \<Rightarrow> world \<Rightarrow> proc_result \<times> world" where
  "run_subprocess lib cmd timeout w =
     (case subprocess_run lib cmd timeout (files w) of
        (result, fs) \<Rightarrow>
          (result, w\<lparr>files := fs, events := events w @ [Subprocess_run cmd timeout]\<rparr>))"

definition check_ffmpeg :: "('img, 'audio) libs \<Rightarrow> world \<Rightarrow> (exn + bool) \<times> world" where
  "check_ffmpeg lib w =
     (case run_subprocess lib [''ffmpeg'', ''-version''] 10 w of
        (Completed returncode out err, w1) \<Rightarrow> (Inr (returncode = 0), w1)
      | (Raised e, w1) \<Rightarrow>
          if exn_class_of e \<in> set [TimeoutExpired, FileNotFoundError, SubprocessError]
          then (Inr False, w1)
          else (Inl e, w1))"

definition build_ffmpeg_command :: "string \<Rightarrow> string \<Rightarrow> string \<Rightarrow> string list" where
  "build_ffmpeg_command input_path output_path output_format =
     (let base_cmd = [''ffmpeg'', ''-i'', input_path, ''-y'']
      in if output_format = ''mp4''
         then base_cmd @ [''-c:v'', ''libx264'', ''-c:a'', ''aac'', ''-preset'', ''medium'',
                          ''-crf'', ''23'', ''-movflags'', ''+faststart'', output_path]
         else if output_format = ''avi''
         then base_cmd @ [''-c:v'', ''libx264'', ''-c:a'', ''mp3'', ''-preset'', ''medium'',
                          ''-crf'', ''23'', output_path]
         else if output_format = ''mov''
         then base_cmd @ [''-c:v'', ''libx264'', ''-c:a'', ''aac'', ''-preset'', ''medium'',
                          ''-crf'', ''23'', output_path]
         else if output_format = ''webm''
         then base_cmd @ [''-c:v'', ''libvpx-vp9'', ''-c:a'', ''libopus'', ''-crf'', ''30'',
                          ''-b:v'', ''0'', output_path]
         else if output_format = ''mkv''
         then base_cmd @ [''-c:v'', ''libx264'', ''-c:a'', ''aac'', ''-preset'', ''medium'',
                          ''-crf'', ''23'', output_path]
         else base_cmd @ [output_path])"

text \<open>The inner \<open>try\<close> block of \<open>convert\<close>, after the temporary file is there.\<close>

definition video_convert_body ::
  "('img, 'audio) libs \<Rightarrow> string \<Rightarrow> string \<Rightarrow> string \<Rightarrow> string \<Rightarrow> world
     \<Rightarrow> (exn + artifact) \<times> world" where
  "video_convert_body lib input_path output_format output_filename tmp_output_path w =
     (let cmd = build_ffmpeg_command input_path tmp_output_path output_format
      in case run_subprocess lib cmd 300 w of
           (Raised e, w1) \<Rightarrow> (Inl e, w1)
         | (Completed returncode out err, w1) \<Rightarrow>
             if returncode \<noteq> 0
             then (Inl (Exn Exception (''FFmpeg conversion failed: '' @ err)), w1)
             else
               (case read_bytes w1 tmp_output_path of
                  Inl e \<Rightarrow> (Inl e, w1)
                | Inr video_data \<Rightarrow>
                    (let mime_type =
                           (case map_of video_mime_types output_format of
                              Some m \<Rightarrow> m
                            | None \<Rightarrow> ''video/mp4'')
                     in (Inr (video_data, output_filename, mime_type), w1))))"

text \<open>The outer \<open>try\<close> block of \<open>convert\<close>.\<close>

definition video_convert_try ::
  "('img, 'audio) libs \<Rightarrow> string \<Rightarrow> string \<Rightarrow> string \<Rightarrow> world \<Rightarrow> (exn + artifact) \<times> world" where
  "video_convert_try lib input_path output_format output_filename w =
     (case check_ffmpeg lib w of
        (Inl e, w1) \<Rightarrow> (Inl e, w1)
      | (Inr available, w1) \<Rightarrow>
          if \<not> available
          then (Inl (Exn Exception
                       ''FFmpeg is required for video conversion but not available''), w1)
          else
            (case NamedTemporaryFile (''.'' @ output_format) w1 of
               (Inl e, w2) \<Rightarrow> (Inl e, w2)
             | (Inr tmp_output_path, w2) \<Rightarrow>
                 (case video_convert_body lib input_path output_format output_filename
                         tmp_output_path w2 of
                    (r, w3) \<Rightarrow> (r, unlink_if_exists tmp_output_path w3))))"

definition video_convert ::
  "('img, 'audio) libs \<Rightarrow> string \<Rightarrow> string \<Rightarrow> string \<Rightarrow> world \<Rightarrow> (exn + artifact) \<times> world" where
  "video_convert lib input_path output_format original_filename w =
     (let output_filename = video_get_output_filename original_filename output_format
      in case video_convert_try lib input_path output_format output_filename w of
           (Inr r, w1) \<Rightarrow> (Inr r, w1)
         | (Inl e, w1) \<Rightarrow>
             if str_in ''FFmpeg'' (str_of e)
             then (Inl (Exn Exception
                          (''Video conversion requires FFmpeg installation. ''
                             @ ''Please use a simpler format conversion or install FFmpeg.'')),
                   w1)
             else (Inl (Exn Exception (''Failed to convert video: '' @ str_of e)), w1))"

section \<open>app.py\<close>

record uploaded_file =
  file_name :: string
  file_bytes :: bytes

record job =
  job_file :: uploaded_file
  job_output_format :: string
  job_file_type :: string

text \<open>
  \<open>convert_file\<close>: the upload is written to a temporary file whose suffix is the part of
  the name after its last dot, the converter of the category runs on it, and the
  temporary file is deleted on every path.
\<close>

definition convert_file ::
  "('img, 'audio) libs \<Rightarrow> uploaded_file \<Rightarrow> string \<Rightarrow> string \<Rightarrow> world
     \<Rightarrow> (exn + artifact) \<times> world" where
  "convert_file lib uploaded output_format file_type w =
     (case NamedTemporaryFile (''.'' @ last (split_char CHR ''.'' (file_name uploaded))) w of
        (Inl e, w1) \<Rightarrow> (Inl e, w1)
      | (Inr tmp_file_path, w1) \<Rightarrow>
          (let w2 = w1\<lparr>files := (files w1)(tmp_file_path \<mapsto> file_bytes uploaded)\<rparr>;
               (result, w3) =
                 (if file_type = ''document''
                  then (document_convert lib w2 tmp_file_path output_format
                          (file_name uploaded), w2)
                  else if file_type = ''image''
                  then (image_convert lib w2 tmp_file_path output_format
                          (file_name uploaded), w2)
                  else if file_type = ''audio''
                  then audio_convert lib tmp_file_path output_format (file_name uploaded) w2
                  else if file_type = ''video''
                  then video_convert lib tmp_file_path output_format (file_name uploaded) w2
                  else (Inl (Exn ValueError (''Unsupported file type: '' @ file_type)), w2))
           in (result, unlink_if_exists tmp_file_path w3)))"

text \<open>
  The session state of \<open>process_conversions\<close>: the converted files (the keys
  \<open>filename\<close>, \<open>data\<close> and \<open>mime_type\<close> of each entry) and the history (the
  time stamp of a history entry is left out), and the messages shown with \<open>st.error\<close>,
  each as the file name and the text of the exception. The progress bar and the status
  text are not modelled.
\<close>

record converted_file =
  cf_filename :: string
  cf_data :: bytes
  cf_mime_type :: string

record session_state =
  converted_files :: "converted_file list"
  conversion_history :: "(string \<times> string) list"
  error_messages :: "(string \<times> string) list"

fun process_conversions ::
  "('img, 'audio) libs \<Rightarrow> job list \<Rightarrow> session_state \<Rightarrow> world \<Rightarrow> session_state \<times> world" where
  "process_conversions lib [] st w = (st, w)"
| "process_conversions lib (j # conversion_jobs) st w =
     (case convert_file lib (job_file j) (job_output_format j) (job_file_type j) w of
        (Inr (converted_data, output_filename, mime), w1) \<Rightarrow>
          process_conversions lib conversion_jobs
            (if converted_data \<noteq> []
             then st\<lparr>converted_files := converted_files st @
                       [\<lparr>cf_filename = output_filename, cf_data = converted_data,
                          cf_mime_type = mime\<rparr>],
                     conversion_history := conversion_history st @
                       [(file_name (job_file j), output_filename)]\<rparr>
             else st) w1
      | (Inl e, w1) \<Rightarrow>
          process_conversions lib conversion_jobs
            (st\<lparr>error_messages := error_messages st @
                   [(file_name (job_file j), str_of e)]\<rparr>) w1)"

section \<open>Libraries and worlds for the examples\<close>

text \<open>
  Concrete libraries, worlds and batches on which the theorems below are evaluated:
  libraries whose every call fails or succeeds, libraries in which one call of the audio
  or video path fails, a world that holds one file, and uploads. The random names that
  \<open>tempfile\<close> tries are \<open>x\<close>, \<open>xx\<close>, \<open>xxx\<close> and so on.
\<close>

definition failing_libs :: "(unit, unit) libs" where
  "failing_libs =
     \<lparr>pdf_page_texts = (\<lambda>d. Inl (Exn Other_error ''no reader'')),
      docx_paragraph_texts = (\<lambda>d. Inl (Exn Other_error ''no reader'')),
      canvas_pdf = (\<lambda>t. Inl (Exn Other_error ''no canvas'')),
      document_docx = (\<lambda>t. Inl (Exn Other_error ''no document'')),
      image_open = (\<lambda>d. Inl (Exn Other_error ''cannot identify image file'')),
      image_encode = (\<lambda>img f. Inl (Exn Other_error ''encoder error'')),
      audio_from_file = (\<lambda>d f. Inl (Exn Other_error ''decoding failed'')),
      audio_export = (\<lambda>a f k. Inl (Exn Other_error ''encoding failed'')),
      subprocess_run = (\<lambda>cmd t fs. (Raised (Exn FileNotFoundError ''ffmpeg''), fs))\<rparr>"

definition world_with :: "string \<Rightarrow> bytes \<Rightarrow> world" where
  "world_with p d =
     \<lparr>files = [p \<mapsto> d], tmp_names = (\<lambda>i. replicate (Suc i) CHR ''x''),
      tmp_next = 0, events = []\<rparr>"

text \<open>
  A Python \<open>str\<close> holds code points up to U+10FFFF; a scalar value is one that is not a
  surrogate.
\<close>

definition python_str :: "unicode \<Rightarrow> bool" where
  "python_str s = list_all (\<lambda>c. c < 0x110000) s"

definition scalar_value :: "nat \<Rightarrow> bool" where
  "scalar_value c = (c < 0x110000 \<and> \<not> is_surrogate c)"

definition working_libs :: "(unit, unit) libs" where
  "working_libs =
     \<lparr>pdf_page_texts = (\<lambda>d. Inr [[72, 105]]),
      docx_paragraph_texts = (\<lambda>d. Inr [[72, 105]]),
      canvas_pdf = (\<lambda>t. Inr [0x25, 0x50, 0x44, 0x46]),
      document_docx = (\<lambda>t. Inr [0x50, 0x4B]),
      image_open = (\<lambda>d. Inr ()),
      image_encode = (\<lambda>img f. Inr [0x89, 0x50]),
      audio_from_file = (\<lambda>d f. Inr ()),
      audio_export = (\<lambda>a f k. Inr [0x49, 0x44, 0x33]),
      subprocess_run =
        (\<lambda>cmd t fs.
           if cmd = [''ffmpeg'', ''-version'']
           then (Completed 0 ''ffmpeg version 6.0'' [], fs)
           else (Completed 0 [] [], fs(last cmd \<mapsto> [0, 0, 0, 0x18])))\<rparr>"



definition export_failing_libs :: "(unit, unit) libs" where
  "export_failing_libs =
     working_libs\<lparr>audio_export := (\<lambda>a f k. Inl (Exn Other_error ''encoder missing''))\<rparr>"

definition specific_failing_libs :: "(unit, unit) libs" where
  "specific_failing_libs =
     working_libs\<lparr>audio_from_file :=
       (\<lambda>d f. if f = None then Inr () else Inl (Exn Other_error ''decoding failed''))\<rparr>"

definition empty_session :: session_state where
  "empty_session = \<lparr>converted_files = [], conversion_history = [], error_messages = []\<rparr>"

definition empty_world :: world where
  "empty_world =
     \<lparr>files = Map.empty, tmp_names = (\<lambda>i. replicate (Suc i) CHR ''x''),
      tmp_next = 0, events = []\<rparr>"

definition upload :: "string \<Rightarrow> bytes \<Rightarrow> string \<Rightarrow> string \<Rightarrow> job" where
  "upload n d output_format file_type =
     \<lparr>job_file = \<lparr>file_name = n, file_bytes = d\<rparr>,
      job_output_format = output_format, job_file_type = file_type\<rparr>"

definition example_batch :: "job list" where
  "example_batch =
     [upload ''notes.txt'' [0x68, 0x69] ''txt'' ''document'',
      upload ''empty.txt'' [] ''txt'' ''document'',
      upload ''photo.png'' [0x00] ''jpg'' ''image'']"

section \<open>The outcomes of a batch\<close>

text \<open>
  What each job of a batch gives, in submission order: the job with what \<open>convert_file\<close>
  returns or raises for it, the world going from one job to the next as in the loop.
\<close>

fun job_results ::
  "('img, 'audio) libs \<Rightarrow> job list \<Rightarrow> world \<Rightarrow> (job \<times> (exn + artifact)) list" where
  "job_results lib [] w = []"
| "job_results lib (j # js) w =
     (case convert_file lib (job_file j) (job_output_format j) (job_file_type j) w of
        (r, w1) \<Rightarrow> (j, r) # job_results lib js w1)"

text \<open>
  The outcomes that a list of results leaves behind: an entry of the converted files for
  a result with data, an error message for an exception, and nothing for a result whose
  data is empty.
\<close>

fun recorded_files :: "(job \<times> (exn + artifact)) list \<Rightarrow> converted_file list" where
  "recorded_files [] = []"
| "recorded_files ((j, Inl e) # rs) = recorded_files rs"
| "recorded_files ((j, Inr (d, n, m)) # rs) =
     (if d \<noteq> [] then [\<lparr>cf_filename = n, cf_data = d, cf_mime_type = m\<rparr>] else [])
       @ recorded_files rs"

fun recorded_errors :: "(job \<times> (exn + artifact)) list \<Rightarrow> (string \<times> string) list" where
  "recorded_errors [] = []"
| "recorded_errors ((j, Inl e) # rs) = (file_name (job_file j), str_of e) # recorded_errors rs"
| "recorded_errors ((j, Inr r) # rs) = recorded_errors rs"

fun returned_empty :: "job \<times> (exn + artifact) \<Rightarrow> bool" where
  "returned_empty (j, Inl e) = False"
| "returned_empty (j, Inr (d, n, m)) = (d = [])"

section \<open>The classifier as the specification words it\<close>

text \<open>
  The specification derives the extension as the substring after the last dot of the file
  name, lower-cased (empty when there is no dot), and maps it to a category through four
  fixed sets. These two definitions follow those words; \<open>get_file_type\<close> above follows
  the source.
\<close>

definition spec_extension :: "string \<Rightarrow> string" where
  "spec_extension filename =
     (if CHR ''.'' \<in> set filename
      then lower (rev (takeWhile (\<lambda>c. c \<noteq> CHR ''.'') (rev filename)))
      else [])"

definition spec_category :: "string \<Rightarrow> string" where
  "spec_category ext =
     (if ext \<in> {''pdf'', ''doc'', ''docx'', ''txt'', ''rtf'', ''odt''} then ''document''
      else if ext \<in> {''jpg'', ''jpeg'', ''png'', ''gif'', ''webp'', ''bmp'', ''tiff'', ''svg''} then ''image''
      else if ext \<in> {''mp3'', ''wav'', ''m4a'', ''ogg'', ''flac'', ''aac'', ''wma''} then ''audio''
      else if ext \<in> {''mp4'', ''avi'', ''mov'', ''mkv'', ''webm'', ''flv'', ''wmv'', ''3gp''} then ''video''
      else ''unknown'')"

section \<open>Properties of the classifier and of the size validation\<close>

lemma find_char_takeWhile:
  "find_char c xs =
     (if c \<in> set xs then Some (length (takeWhile (\<lambda>x. x \<noteq> c) xs)) else None)"
  by (induction xs) auto

lemma rfind_char_eq:
  "rfind_char c s =
     (if c \<in> set s then int (length s) - 1 - int (length (takeWhile (\<lambda>x. x \<noteq> c) (rev s)))
      else - 1)"
  by (simp add: rfind_char_def find_char_takeWhile)

lemma takeWhile_shorter:
  "\<exists>x\<in>set xs. \<not> P x \<Longrightarrow> length (takeWhile P xs) < length xs"
  by (induction xs) auto

lemma rfind_char_bounds:
  "c \<in> set s \<Longrightarrow> 0 \<le> rfind_char c s \<and> rfind_char c s < int (length s)"
  using takeWhile_shorter[of "rev s" "\<lambda>x. x \<noteq> c"] by (simp add: rfind_char_eq)

lemma drop_after_last:
  assumes "c \<in> set s"
  shows "drop (Suc (nat (rfind_char c s))) s = rev (takeWhile (\<lambda>x. x \<noteq> c) (rev s))"
proof -
  let ?t = "takeWhile (\<lambda>x. x \<noteq> c) (rev s)"
  have lt: "length ?t < length s"
    using assms takeWhile_shorter[of "rev s" "\<lambda>x. x \<noteq> c"] by simp
  have "Suc (nat (rfind_char c s)) = length s - length ?t"
    using assms lt by (simp add: rfind_char_eq)
  then have "drop (Suc (nat (rfind_char c s))) s = rev (take (length ?t) (rev s))"
    by (simp add: take_rev)
  also have "take (length ?t) (rev s) = ?t"
    by (metis takeWhile_eq_take)
  finally show ?thesis .
qed

lemma category_code:
  "spec_category ext =
     (if ext \<in> set document_formats then ''document''
      else if ext \<in> set image_formats then ''image''
      else if ext \<in> set audio_formats then ''audio''
      else if ext \<in> set video_formats then ''video''
      else ''unknown'')"
  unfolding spec_category_def document_formats_def image_formats_def audio_formats_def video_formats_def
  by simp

lemma category_empty: "spec_category [] = ''unknown''"
  by (simp add: spec_category_def)

lemma get_file_type_last_dot:
  "get_file_type filename =
     (let name = path_name filename
      in if rfind_char CHR ''.'' name = 0 then ''unknown''
         else spec_category (spec_extension name))"
proof -
  define name where "name = path_name filename"
  define i where "i = rfind_char CHR ''.'' name"
  have g: "get_file_type filename = spec_category (drop 1 (lower (path_suffix filename)))"
    by (simp add: get_file_type_def category_code Let_def)
  consider (nodot) "CHR ''.'' \<notin> set name" | (first) "CHR ''.'' \<in> set name" "i = 0"
    | (trail) "CHR ''.'' \<in> set name" "i \<noteq> 0" "i = int (length name) - 1"
    | (mid) "CHR ''.'' \<in> set name" "0 < i" "i < int (length name) - 1"
    using rfind_char_bounds[of "CHR ''.''" name] unfolding i_def by fastforce
  then show ?thesis
  proof cases
    case nodot
    then have "i = - 1" by (simp add: i_def rfind_char_eq)
    then show ?thesis using nodot
      by (simp add: g path_suffix_def Let_def name_def[symmetric] i_def[symmetric] spec_extension_def lower_def)
  next
    case first
    then show ?thesis
      by (simp add: g path_suffix_def Let_def name_def[symmetric] i_def[symmetric] category_empty lower_def)
  next
    case trail
    then have "takeWhile (\<lambda>x. x \<noteq> CHR ''.'') (rev name) = []"
      by (simp add: i_def rfind_char_eq)
    then show ?thesis using trail
      by (simp add: g path_suffix_def Let_def name_def[symmetric] i_def[symmetric] spec_extension_def lower_def
          del: takeWhile_eq_Nil_iff)
  next
    case mid
    have "drop 1 (lower (drop (nat i) name)) = lower (drop (Suc (nat i)) name)"
      by (simp add: lower_def drop_map)
    also have "drop (Suc (nat i)) name = rev (takeWhile (\<lambda>x. x \<noteq> CHR ''.'') (rev name))"
      unfolding i_def using mid(1) by (rule drop_after_last)
    finally show ?thesis using mid
      by (simp add: g path_suffix_def Let_def name_def[symmetric] i_def[symmetric] spec_extension_def)
  qed
qed

lemma split_char_absent: "c \<notin> set s \<Longrightarrow> split_char c s = [s]"
  by (induction s) auto

lemma path_name_plain:
  "CHR ''/'' \<notin> set filename \<Longrightarrow> filename \<noteq> ''.'' \<Longrightarrow> path_name filename = filename"
  by (simp add: path_name_def split_char_absent)

text \<open>
  Claim C5, as the code has it: the classifier looks at the final path component only
  (the whole name when it has no \<open>/\<close>), and a dot that is the first character of that
  component does not start an extension (the result is then \<open>unknown\<close>); in every
  other case the category is the one that the four membership sets give to the
  lower-cased substring after the last dot, and \<open>unknown\<close> when that substring is empty,
  missing or in none of the sets.
\<close>

theorem get_file_type_classifies:
  "get_file_type filename =
     (let name = path_name filename
      in if rfind_char CHR ''.'' name = 0 then ''unknown''
         else spec_category (spec_extension name))
   \<and> (CHR ''/'' \<notin> set filename \<and> filename \<noteq> ''.'' \<longrightarrow> path_name filename = filename)"
  using get_file_type_last_dot path_name_plain by blast

theorem get_file_type_classifies_witness:
  "get_file_type ''holiday.Photo.JPG'' = ''image'' \<and> get_file_type ''.pdf'' = ''unknown''
   \<and> get_file_type ''notes'' = ''unknown''
   \<and> path_name ''holiday.Photo.JPG'' = ''holiday.Photo.JPG''"
proof -
  have "CHR ''/'' \<notin> set ''holiday.Photo.JPG'' \<and> ''holiday.Photo.JPG'' \<noteq> ''.''" by simp
  then have "path_name ''holiday.Photo.JPG'' = ''holiday.Photo.JPG''"
    using get_file_type_classifies[of "''holiday.Photo.JPG''"] by blast
  moreover have "get_file_type ''holiday.Photo.JPG'' = ''image'' \<and> get_file_type ''.pdf'' = ''unknown''
   \<and> get_file_type ''notes'' = ''unknown''"
    by code_simp
  ultimately show ?thesis by blast
qed

text \<open>
  Claim C5 as stated fails on a name whose only dot is its first character: the substring
  after the last dot of \<open>.pdf\<close> is \<open>pdf\<close>, a document extension, but the code
  answers \<open>unknown\<close>.
\<close>

theorem get_file_type_counterexample:
  "get_file_type ''.pdf'' \<noteq> spec_category (spec_extension ''.pdf'')"
  by code_simp

text \<open>
  Claim C6: the size validation fails, with the size-exceeded message, exactly when the
  size is strictly above the ceiling of the category: 50 MiB for video, 100 MiB for
  document, image and audio, and 100 MiB for any other category. A size equal to the
  ceiling passes.
\<close>

theorem validate_file_size_ceiling:
  "fst (validate_file_size file_size_bytes file_type)
     = (\<not> file_size_bytes >
          (if file_type = ''video'' then 50 * 1024 * 1024
           else if file_type \<in> {''document'', ''image'', ''audio''} then 100 * 1024 * 1024
           else 100 * 1024 * 1024))
   \<and> ((\<exists>limit. snd (validate_file_size file_size_bytes file_type)
                  = Size_exceeds file_size_bytes file_type limit)
        = (\<not> fst (validate_file_size file_size_bytes file_type)))"
  by (auto simp: validate_file_size_def size_limits_def Let_def)

theorem validate_file_size_ceiling_witness:
  "fst (validate_file_size (50 * 1024 * 1024) ''video'')
   \<and> \<not> fst (validate_file_size (50 * 1024 * 1024 + 1) ''video'')
   \<and> fst (validate_file_size (100 * 1024 * 1024) ''image'')
   \<and> \<not> fst (validate_file_size (100 * 1024 * 1024 + 1) ''archive'')"
  using validate_file_size_ceiling[of "50 * 1024 * 1024" "''video''"]
    validate_file_size_ceiling[of "50 * 1024 * 1024 + 1" "''video''"]
    validate_file_size_ceiling[of "100 * 1024 * 1024" "''image''"]
    validate_file_size_ceiling[of "100 * 1024 * 1024 + 1" "''archive''"]
  by simp

section \<open>Properties of the file name cleaning\<close>

lemma str_in_sublist: "str_in sub s = sublist sub s"
  by (induction s) (auto simp: sublist_Cons_right)

lemma str_replace_single:
  "str_replace [c] [d] s = map (\<lambda>x. if x = c then d else x) s"
  by (induction s) auto

lemma fold_replace_chars:
  "fold (\<lambda>char clean_name. str_replace char [d] clean_name) (map (\<lambda>c. [c]) cs) s
     = map (\<lambda>x. if x \<in> set cs then d else x) s"
proof (induction cs arbitrary: s)
  case Nil
  then show ?case by simp
next
  case (Cons c cs)
  show ?case by (simp add: Cons.IH str_replace_single)
qed

lemma invalid_chars_map:
  "invalid_chars = map (\<lambda>c. [c]) [CHR ''<'', CHR ''>'', CHR '':'', CHR 0x22, CHR ''/'', CHR 0x5C, CHR ''|'', CHR ''?'', CHR ''*'']"
  by (simp add: invalid_chars_def)

lemma set_str_replace: "set (str_replace old new s) \<subseteq> set s \<union> set new"
proof (induction old new s rule: str_replace.induct)
  case (1 old new)
  then show ?case by auto
next
  case (2 old new c cs)
  have "set (drop (length old) (c # cs)) \<subseteq> set (c # cs)" by (rule set_drop_subset)
  with 2 show ?case by (auto simp del: drop.simps drop_Suc_Cons)
qed

lemma loop_no_double: "\<not> str_in ''__'' (clean_filename_loop s)"
  by (induction s rule: clean_filename_loop.induct) (simp add: clean_filename_loop.simps)

lemma loop_set: "set (clean_filename_loop s) \<subseteq> set s"
proof (induction s rule: clean_filename_loop.induct)
  case (1 s)
  show ?case
  proof (cases "str_in ''__'' s")
    case True
    then have "CHR ''_'' \<in> set s"
      by (auto simp: str_in_sublist dest!: set_mono_sublist)
    moreover have "set (str_replace ''__'' ''_'' s) \<subseteq> set s \<union> set ''_''" by (rule set_str_replace)
    ultimately show ?thesis using 1 True by (subst clean_filename_loop.simps) auto
  next
    case False
    then show ?thesis by (simp add: clean_filename_loop.simps)
  qed
qed

lemma loop_fixed: "\<not> str_in ''__'' s \<Longrightarrow> clean_filename_loop s = s"
  by (simp add: clean_filename_loop.simps)

lemma strip_sublist: "sublist (str_strip chars s) s"
proof -
  have "sublist (dropWhile (\<lambda>c. c \<in> set chars) (rev (dropWhile (\<lambda>c. c \<in> set chars) s)))
          (rev (dropWhile (\<lambda>c. c \<in> set chars) s))" by simp
  then have "sublist (str_strip chars s) (dropWhile (\<lambda>c. c \<in> set chars) s)"
    unfolding str_strip_def by (simp add: sublist_rev_left)
  moreover have "sublist (dropWhile (\<lambda>c. c \<in> set chars) s) s" by simp
  ultimately show ?thesis by (rule sublist_order.order_trans)
qed

lemma strip_last: "str_strip chars s \<noteq> [] \<Longrightarrow> last (str_strip chars s) \<notin> set chars"
  unfolding str_strip_def using hd_dropWhile[of "\<lambda>c. c \<in> set chars" "rev (dropWhile (\<lambda>c. c \<in> set chars) s)"]
  by (simp add: last_rev)

lemma strip_hd: "str_strip chars s \<noteq> [] \<Longrightarrow> hd (str_strip chars s) \<notin> set chars"
proof -
  assume ne: "str_strip chars s \<noteq> []"
  let ?P = "\<lambda>c. c \<in> set chars"
  let ?t = "dropWhile ?P s"
  have "prefix (str_strip chars s) ?t"
    unfolding str_strip_def using suffix_dropWhile[of ?P "rev ?t"] by (simp add: suffix_to_prefix)
  then have "hd (str_strip chars s) = hd ?t" using ne by (auto simp: prefix_def)
  moreover have "?t \<noteq> []" using \<open>prefix (str_strip chars s) ?t\<close> ne by (metis prefix_Nil)
  ultimately show ?thesis using hd_dropWhile[of ?P s] by simp
qed

lemma strip_fixed:
  "s = [] \<or> (hd s \<notin> set chars \<and> last s \<notin> set chars) \<Longrightarrow> str_strip chars s = s"
proof (cases "s = []")
  case True
  then show ?thesis by (simp add: str_strip_def)
next
  case False
  assume "s = [] \<or> (hd s \<notin> set chars \<and> last s \<notin> set chars)"
  with False have h: "hd s \<notin> set chars" and l: "last s \<notin> set chars" by auto
  have 1: "dropWhile (\<lambda>c. c \<in> set chars) s = s" using h by (simp add: dropWhile_eq_self_iff)
  have 2: "dropWhile (\<lambda>c. c \<in> set chars) (rev s) = rev s"
    using l False by (simp add: dropWhile_eq_self_iff hd_rev)
  show ?thesis by (simp add: str_strip_def 1 2)
qed

lemma clean_chars: "set (clean_filename s) \<inter> set [CHR ''<'', CHR ''>'', CHR '':'', CHR 0x22, CHR ''/'', CHR 0x5C, CHR ''|'', CHR ''?'', CHR ''*''] = {}"
proof -
  let ?a = "fold (\<lambda>char clean_name. str_replace char ''_'' clean_name) invalid_chars s"
  have a: "set ?a \<inter> set [CHR ''<'', CHR ''>'', CHR '':'', CHR 0x22, CHR ''/'', CHR 0x5C, CHR ''|'', CHR ''?'', CHR ''*''] = {}"
    unfolding invalid_chars_map fold_replace_chars by auto
  have "set (clean_filename s) \<subseteq> set (clean_filename_loop ?a)"
    unfolding clean_filename_def using strip_sublist by (rule set_mono_sublist)
  also have "\<dots> \<subseteq> set ?a" by (rule loop_set)
  finally show ?thesis using a by blast
qed

lemma clean_no_double: "\<not> str_in ''__'' (clean_filename s)"
proof
  assume "str_in ''__'' (clean_filename s)"
  then have "sublist ''__'' (clean_filename s)" by (simp add: str_in_sublist)
  moreover have "sublist (clean_filename s) (clean_filename_loop (fold (\<lambda>char clean_name. str_replace char ''_'' clean_name) invalid_chars s))"
    unfolding clean_filename_def by (rule strip_sublist)
  ultimately have "sublist ''__'' (clean_filename_loop (fold (\<lambda>char clean_name. str_replace char ''_'' clean_name) invalid_chars s))"
    by (rule sublist_order.order_trans)
  then show False using loop_no_double by (simp add: str_in_sublist)
qed

lemma clean_ends:
  "clean_filename s = [] \<or> (hd (clean_filename s) \<notin> set ''_ '' \<and> last (clean_filename s) \<notin> set ''_ '')"
  unfolding clean_filename_def using strip_hd strip_last by blast

lemma clean_fixed:
  assumes "set r \<inter> set [CHR ''<'', CHR ''>'', CHR '':'', CHR 0x22, CHR ''/'', CHR 0x5C, CHR ''|'', CHR ''?'', CHR ''*''] = {}" and "\<not> str_in ''__'' r"
    and "r = [] \<or> (hd r \<notin> set ''_ '' \<and> last r \<notin> set ''_ '')"
  shows "clean_filename r = r"
proof -
  have "fold (\<lambda>char clean_name. str_replace char ''_'' clean_name) invalid_chars r = map (\<lambda>x. x) r"
    unfolding invalid_chars_map fold_replace_chars using assms(1) by (intro map_cong) auto
  then show ?thesis
    unfolding clean_filename_def using assms(2,3) by (simp add: loop_fixed strip_fixed)
qed

text \<open>
  Claim C10: the cleaned file name contains none of the characters
  \<open>< > : " / \ | ? *\<close>, has no two consecutive underscores, neither starts nor ends with
  an underscore or a space, and cleaning it again changes nothing.
\<close>

theorem clean_filename_clean:
  "set (clean_filename s) \<inter> set [CHR ''<'', CHR ''>'', CHR '':'', CHR 0x22, CHR ''/'', CHR 0x5C, CHR ''|'', CHR ''?'', CHR ''*''] = {}
   \<and> \<not> str_in ''__'' (clean_filename s)
   \<and> \<not> prefix ''_'' (clean_filename s) \<and> \<not> prefix '' '' (clean_filename s)
   \<and> \<not> suffix ''_'' (clean_filename s) \<and> \<not> suffix '' '' (clean_filename s)
   \<and> clean_filename (clean_filename s) = clean_filename s"
proof -
  have e: "clean_filename s = [] \<or> (hd (clean_filename s) \<notin> set ''_ '' \<and> last (clean_filename s) \<notin> set ''_ '')"
    by (rule clean_ends)
  have p: "\<not> prefix ''_'' (clean_filename s) \<and> \<not> prefix '' '' (clean_filename s)"
    using e by (auto simp: prefix_def)
  have q: "\<not> suffix ''_'' (clean_filename s) \<and> \<not> suffix '' '' (clean_filename s)"
    using e by (auto simp: suffix_def)
  show ?thesis using clean_chars clean_no_double p q clean_fixed[OF clean_chars clean_no_double e] by blast
qed

theorem clean_filename_clean_witness:
  "clean_filename ''__a<>b:  c??__ '' = ''a_b_  c'' \<and> clean_filename ''a_b_  c'' = ''a_b_  c''"
  using clean_filename_clean[of "''__a<>b:  c??__ ''"]
  by (simp add: clean_filename_def invalid_chars_def clean_filename_loop.simps str_strip_def)

section \<open>UTF-8: decoding what was encoded\<close>

lemma base64_digits:
  fixes c :: nat
  obtains q1 q2 q3 m0 m1 m2 where
    "c div 64 = q1" "c div 4096 = q2" "c div 262144 = q3"
    "c mod 64 = m0" "(c div 64) mod 64 = m1" "(c div 4096) mod 64 = m2"
    "c = q1 * 64 + m0" "q1 = q2 * 64 + m1" "q2 = q3 * 64 + m2"
    "m0 < 64" "m1 < 64" "m2 < 64"
proof -
  have a: "c div 4096 = c div 64 div 64"
    using div_mult2_eq[of c 64 64] by simp
  have b: "c div 262144 = c div 4096 div 64"
    using div_mult2_eq[of c 4096 64] by simp
  show ?thesis
  proof (rule that[of "c div 64" "c div 4096" "c div 262144" "c mod 64" "(c div 64) mod 64" "(c div 4096) mod 64"])
    show "c div 64 = c div 4096 * 64 + c div 64 mod 64" unfolding a by simp
    show "c div 4096 = c div 262144 * 64 + c div 4096 mod 64" unfolding b by simp
  qed simp_all
qed

lemma second_ok3_digits:
  "m1 < 64 \<Longrightarrow> (q2 = 0 \<Longrightarrow> 32 \<le> m1) \<Longrightarrow> (q2 = 13 \<Longrightarrow> m1 < 32) \<Longrightarrow>
   second_ok3 (0xE0 + q2) (0x80 + m1)"
  by (cases "q2 = 0"; cases "q2 = 13"; simp add: second_ok3_def is_continuation_def)

lemma second_ok4_digits:
  "m2 < 64 \<Longrightarrow> (q3 = 0 \<Longrightarrow> 16 \<le> m2) \<Longrightarrow> (q3 = 4 \<Longrightarrow> m2 < 16) \<Longrightarrow>
   second_ok4 (0xF0 + q3) (0x80 + m2)"
  by (cases "q3 = 0"; cases "q3 = 4"; simp add: second_ok4_def is_continuation_def)

lemma step1: assumes "c < 0x80"
  shows "utf8_step (c # rest) = (Some c, 1)"
  using assms by (simp add: utf8_step_def)

lemma step2: assumes "0x80 \<le> c" "c < 0x800"
  shows "utf8_step ((0xC0 + c div 64) # (0x80 + c mod 64) # rest) = (Some c, 2)"
proof -
  have a: "2 \<le> c div 64" "c div 64 < 32" "c mod 64 < 64"
    using assms by - (rule base64_digits[of c], linarith)+
  have r: "c div 64 * 64 + c mod 64 = c" by simp
  show ?thesis using a r by (simp add: utf8_step_def is_continuation_def)
qed

lemma step3: assumes "0x800 \<le> c" "c < 0x10000" "\<not> is_surrogate c"
  shows "utf8_step ((0xE0 + c div 4096) # (0x80 + (c div 64) mod 64) # (0x80 + c mod 64) # rest) = (Some c, 3)"
proof -
  have a: "c div 4096 < 16" "c mod 64 < 64" "(c div 64) mod 64 < 64"
    using assms(2) by - (rule base64_digits[of c], linarith)+
  have e0: "c div 4096 = 0 \<Longrightarrow> 32 \<le> (c div 64) mod 64"
    using assms(1) by - (rule base64_digits[of c], linarith)
  have ed: "c div 4096 = 13 \<Longrightarrow> (c div 64) mod 64 < 32"
    using assms(3) unfolding is_surrogate_def by - (rule base64_digits[of c], linarith)
  have r: "c div 4096 * 4096 + (c div 64) mod 64 * 64 + c mod 64 = c"
    by (rule base64_digits[of c]) linarith
  have ok: "second_ok3 (0xE0 + c div 4096) (0x80 + (c div 64) mod 64)"
    using a(3) e0 ed by (rule second_ok3_digits)
  show ?thesis using a r ok by (simp add: utf8_step_def is_continuation_def)
qed

lemma step4: assumes "0x10000 \<le> c" "c < 0x110000"
  shows "utf8_step ((0xF0 + c div 262144) # (0x80 + (c div 4096) mod 64) # (0x80 + (c div 64) mod 64) # (0x80 + c mod 64) # rest) = (Some c, 4)"
proof -
  have a: "c div 262144 < 5" "c mod 64 < 64" "(c div 64) mod 64 < 64" "(c div 4096) mod 64 < 64"
    using assms(2) by - (rule base64_digits[of c], linarith)+
  have f0: "c div 262144 = 0 \<Longrightarrow> 16 \<le> (c div 4096) mod 64"
    using assms(1) by - (rule base64_digits[of c], linarith)
  have f4: "c div 262144 = 4 \<Longrightarrow> (c div 4096) mod 64 < 16"
    using assms(2) by - (rule base64_digits[of c], linarith)
  have r: "c div 262144 * 262144 + (c div 4096) mod 64 * 4096 + (c div 64) mod 64 * 64 + c mod 64 = c"
    by (rule base64_digits[of c]) linarith
  have ok: "second_ok4 (0xF0 + c div 262144) (0x80 + (c div 4096) mod 64)"
    using a(4) f0 f4 by (rule second_ok4_digits)
  show ?thesis using a r ok by (simp add: utf8_step_def is_continuation_def)
qed

lemma step_encoded:
  assumes "scalar_value c"
  shows "utf8_step (encode_code_point c @ rest) = (Some c, length (encode_code_point c))"
proof -
  consider "c < 0x80" | "0x80 \<le> c" "c < 0x800" | "0x800 \<le> c" "c < 0x10000" | "0x10000 \<le> c" "c < 0x110000"
    using assms unfolding scalar_value_def by linarith
  then show ?thesis
  proof cases
    case 1 then show ?thesis by (simp add: encode_code_point_def step1)
  next
    case 2 then show ?thesis by (simp add: encode_code_point_def step2)
  next
    case 3 then show ?thesis using assms by (simp add: encode_code_point_def step3 scalar_value_def)
  next
    case 4 then show ?thesis by (simp add: encode_code_point_def step4)
  qed
qed

lemma encode_nonempty: "encode_code_point c \<noteq> []"
  by (simp add: encode_code_point_def)

lemma decode_encoded:
  "list_all scalar_value s \<Longrightarrow> utf8_decode_ignore (concat (map encode_code_point s)) = s"
proof (induction s)
  case Nil
  then show ?case by (simp add: utf8_decode_ignore.simps)
next
  case (Cons c s)
  let ?rest = "concat (map encode_code_point s)"
  have st: "utf8_step (encode_code_point c @ ?rest) = (Some c, length (encode_code_point c))"
    using Cons.prems by (simp add: step_encoded)
  have "utf8_decode_ignore (encode_code_point c @ ?rest) = c # utf8_decode_ignore ?rest"
    by (subst utf8_decode_ignore.simps) (simp add: st encode_nonempty)
  then show ?case using Cons by simp
qed

lemma encode_bound:
  assumes c: "c < 0x110000" and b: "b \<in> set (encode_code_point c)"
  shows "b < 256"
proof -
  have m: "c mod 64 < 64" "(c div 64) mod 64 < 64" "(c div 4096) mod 64 < 64" by simp_all
  have d: "c < 0x800 \<Longrightarrow> c div 64 < 32" "c < 0x10000 \<Longrightarrow> c div 4096 < 16" "c div 262144 < 5"
    using c by - (rule base64_digits[of c], linarith)+
  show ?thesis using b m d c by (auto simp: encode_code_point_def split: if_splits)
qed

lemma unat_of_nat_bytes:
  "\<forall>b\<in>set ns. b < 256 \<Longrightarrow> map unat (map of_nat ns :: 8 word list) = ns"
  by (induction ns) (auto simp: of_nat_inverse)

lemma universal_newlines_id: "13 \<notin> set s \<Longrightarrow> universal_newlines s = s"
  by (induction s) auto

lemma read_text_encoded:
  assumes "list_all scalar_value s" "13 \<notin> set s" "utf8_encode s = Inr data"
  shows "read_text_ignore data = s"
proof -
  have d: "data = map of_nat (concat (map encode_code_point s))"
    using assms(3) by (auto simp: utf8_encode_def split: if_splits)
  have "\<forall>b\<in>set (concat (map encode_code_point s)). b < 256"
    using assms(1) by (auto simp: list_all_iff scalar_value_def intro: encode_bound)
  then have "map unat data = concat (map encode_code_point s)"
    unfolding d by (rule unat_of_nat_bytes)
  then show ?thesis
    using assms(1,2) by (simp add: read_text_ignore_def decode_encoded universal_newlines_id)
qed

section \<open>What the converters return\<close>

lemma lower_literals:
  "lower ''txt'' = ''txt''" "lower ''pdf'' = ''pdf''" "lower ''docx'' = ''docx''"
  by code_simp+

lemma encode_utf8_as_name:
  "encode_utf8_as t n m = Inr (d, n', m') \<Longrightarrow> n' = n"
  by (auto simp: encode_utf8_as_def split: sum.splits)

lemma txt_to_pdf_name: "txt_to_pdf lib t n = Inr (d, n', m') \<Longrightarrow> n' = n"
  by (auto simp: txt_to_pdf_def split: sum.splits)

lemma txt_to_docx_name: "txt_to_docx lib t n = Inr (d, n', m') \<Longrightarrow> n' = n"
  by (auto simp: txt_to_docx_def split: sum.splits)

lemma convert_from_txt_name:
  "convert_from_txt lib w p fmt n = Inr (d, n', m') \<Longrightarrow> n' = n \<and> fmt \<in> {''txt'', ''pdf'', ''docx''}"
  by (auto simp: convert_from_txt_def Let_def split: sum.splits if_splits
      dest: encode_utf8_as_name txt_to_pdf_name txt_to_docx_name)

lemma convert_from_pdf_name:
  "convert_from_pdf lib w p fmt n = Inr (d, n', m') \<Longrightarrow> n' = n \<and> fmt \<in> {''txt'', ''pdf'', ''docx''}"
  by (auto simp: convert_from_pdf_def Let_def split: sum.splits if_splits
      dest: encode_utf8_as_name txt_to_pdf_name txt_to_docx_name)

lemma convert_from_docx_name:
  "convert_from_docx lib w p fmt n = Inr (d, n', m') \<Longrightarrow> n' = n \<and> fmt \<in> {''txt'', ''pdf'', ''docx''}"
  by (auto simp: convert_from_docx_def Let_def split: sum.splits if_splits
      dest: encode_utf8_as_name txt_to_pdf_name txt_to_docx_name)

lemma document_convert_name:
  assumes "document_convert lib w p fmt orig = Inr (d, n, m)"
  shows "n = path_stem orig @ ''.'' @ lower fmt"
proof -
  have "n = document_get_output_filename orig fmt \<and> fmt \<in> {''txt'', ''pdf'', ''docx''}"
    using assms unfolding document_convert_def Let_def
    by (auto split: if_splits dest: convert_from_txt_name convert_from_pdf_name convert_from_docx_name)
  then show ?thesis
    by (auto simp: document_get_output_filename_def lower_literals)
qed

lemma convert_to_name: "convert_to lib f k img n = Inr (d, n', m') \<Longrightarrow> n' = n"
  by (auto simp: convert_to_def split: sum.splits option.splits)

lemma image_convert_name:
  assumes "image_convert lib w p fmt orig = Inr (d, n, m)"
  shows "n = path_stem orig @ ''.'' @ lower fmt"
  using assms unfolding image_convert_def Let_def image_get_output_filename_def
  by (auto split: sum.splits if_splits dest: convert_to_name)

lemma mkstemp_inner_cases:
  "mkstemp_inner k sfx w = (r, w') \<Longrightarrow>
     (\<exists>e. r = Inl e \<and> files w' = files w \<and> events w' = events w)
     \<or> (\<exists>p. r = Inr p \<and> files w p = None \<and> files w' = (files w)(p \<mapsto> [])
            \<and> events w' = events w @ [Tmp_created p])"
proof (induction k arbitrary: w)
  case 0
  then show ?case by auto
next
  case (Suc k)
  let ?file = "''/tmp/tmp'' @ tmp_names w (tmp_next w) @ sfx"
  show ?case
  proof (cases "files w ?file = None")
    case True
    then show ?thesis using Suc.prems by (auto simp: Let_def)
  next
    case False
    then have "mkstemp_inner k sfx (w\<lparr>tmp_next := Suc (tmp_next w)\<rparr>) = (r, w')"
      using Suc.prems by (simp add: Let_def)
    from Suc.IH[OF this] show ?thesis by simp
  qed
qed

lemma NamedTemporaryFile_cases:
  "NamedTemporaryFile sfx w = (r, w') \<Longrightarrow>
     (\<exists>e. r = Inl e \<and> files w' = files w \<and> events w' = events w)
     \<or> (\<exists>p. r = Inr p \<and> files w p = None \<and> files w' = (files w)(p \<mapsto> [])
            \<and> events w' = events w @ [Tmp_created p])"
  unfolding NamedTemporaryFile_def by (rule mkstemp_inner_cases)

lemma mkstemp_inner_fresh:
  assumes "0 < k" "files w (''/tmp/tmp'' @ tmp_names w (tmp_next w) @ sfx) = None"
  shows "mkstemp_inner k sfx w =
           (Inr (''/tmp/tmp'' @ tmp_names w (tmp_next w) @ sfx),
            w\<lparr>tmp_next := Suc (tmp_next w),
               files := (files w)(''/tmp/tmp'' @ tmp_names w (tmp_next w) @ sfx \<mapsto> []),
               events := events w @ [Tmp_created (''/tmp/tmp'' @ tmp_names w (tmp_next w) @ sfx)]\<rparr>)"
  using assms by (cases k) (simp_all add: Let_def)

lemma NamedTemporaryFile_fresh:
  assumes "files w (''/tmp/tmp'' @ tmp_names w (tmp_next w) @ sfx) = None"
  shows "NamedTemporaryFile sfx w =
           (Inr (''/tmp/tmp'' @ tmp_names w (tmp_next w) @ sfx),
            w\<lparr>tmp_next := Suc (tmp_next w),
               files := (files w)(''/tmp/tmp'' @ tmp_names w (tmp_next w) @ sfx \<mapsto> []),
               events := events w @ [Tmp_created (''/tmp/tmp'' @ tmp_names w (tmp_next w) @ sfx)]\<rparr>)"
  unfolding NamedTemporaryFile_def
proof (rule mkstemp_inner_fresh)
  show "0 < TMP_MAX" by (simp add: TMP_MAX_def)
  show "files w (''/tmp/tmp'' @ tmp_names w (tmp_next w) @ sfx) = None" by (rule assms)
qed

lemma export_audio_body_name:
  "export_audio_body lib a fmt n tmp w = (Inr (d, n', m'), w') \<Longrightarrow> n' = n"
  by (auto simp: export_audio_body_def Let_def split: option.splits sum.splits prod.splits)

lemma export_audio_name:
  "export_audio lib a fmt n w = (Inr (d, n', m'), w') \<Longrightarrow> n' = n"
  by (auto simp: export_audio_def split: prod.splits sum.splits dest: export_audio_body_name)

lemma load_and_export_name:
  "load_and_export lib p f fmt n w = (Inr (d, n', m'), w') \<Longrightarrow> n' = n"
  by (auto simp: load_and_export_def split: prod.splits sum.splits dest: export_audio_name)

lemma audio_convert_name:
  assumes "fst (audio_convert lib p fmt orig w) = Inr (d, n, m)"
  shows "n = path_stem orig @ ''.'' @ lower fmt"
  using assms unfolding audio_convert_def Let_def audio_get_output_filename_def
  by (auto split: prod.splits sum.splits dest: load_and_export_name)

lemma video_convert_body_name:
  "video_convert_body lib p fmt n tmp w = (Inr (d, n', m'), w') \<Longrightarrow> n' = n"
  by (auto simp: video_convert_body_def Let_def split: prod.splits proc_result.splits sum.splits if_splits)

lemma video_convert_try_name:
  "video_convert_try lib p fmt n w = (Inr (d, n', m'), w') \<Longrightarrow> n' = n"
  by (auto simp: video_convert_try_def split: prod.splits sum.splits if_splits
      dest: video_convert_body_name)

lemma video_convert_name:
  assumes "fst (video_convert lib p fmt orig w) = Inr (d, n, m)"
  shows "n = path_stem orig @ ''.'' @ lower fmt"
  using assms unfolding video_convert_def Let_def video_get_output_filename_def
  by (auto split: prod.splits sum.splits if_splits dest: video_convert_try_name)

section \<open>The document converter and the output file names\<close>

lemmas path_eval = path_suffix_def path_stem_def path_name_def rfind_char_def Let_def

lemma lower_suffixes:
  "lower ''.txt'' = ''.txt''" "lower ''.doc'' = ''.doc''" "lower ''.jpg'' = ''.jpg''"
  "lower ''.wav'' = ''.wav''" "lower ''.mp4'' = ''.mp4''" "lower ''PNG'' = ''png''"
  "lower ''mp3'' = ''mp3''" "lower ''WEBM'' = ''webm''"
  by code_simp+

lemma path_examples:
  "path_suffix ''/tmp/tmpx.txt'' = ''.txt''" "path_suffix ''/tmp/tmpx.doc'' = ''.doc''"
  "path_suffix ''/tmp/in.jpg'' = ''.jpg''" "path_suffix ''/tmp/in.wav'' = ''.wav''"
  "path_suffix ''/tmp/in.mp4'' = ''.mp4''"
  "path_stem ''My.Notes.TXT'' = ''My.Notes''" "path_stem ''notes.txt'' = ''notes''"
  "path_stem ''letter.doc'' = ''letter''" "path_stem ''Photo.JPG'' = ''Photo''"
  "path_stem ''song.wav'' = ''song''" "path_stem ''clip.mp4'' = ''clip''"
  by (simp_all add: path_eval)

text \<open>
  Claim C1, as the code has it: a pdf input converted to pdf and a docx input converted
  to docx return the bytes of the input file unchanged. A txt input converted to txt
  returns the UTF-8 encoding of the text read from the file (decoded as UTF-8 with
  malformed sequences dropped, line ends normalised to a line feed); that is the bytes of
  the input file whenever these are the UTF-8 encoding of a text without a carriage
  return.
\<close>

theorem document_identity_conversion:
  "files w input_path = Some d \<Longrightarrow>
   (lower (path_suffix input_path) = ''.pdf'' \<longrightarrow>
      document_convert lib w input_path ''pdf'' original_filename
        = Inr (d, path_stem original_filename @ ''.pdf'', ''application/pdf''))
   \<and> (lower (path_suffix input_path) = ''.docx'' \<longrightarrow>
      document_convert lib w input_path ''docx'' original_filename
        = Inr (d, path_stem original_filename @ ''.docx'', docx_mime))
   \<and> (lower (path_suffix input_path) = ''.txt'' \<longrightarrow>
      document_convert lib w input_path ''txt'' original_filename
        = (case utf8_encode (read_text_ignore d) of
             Inl e \<Rightarrow> Inl e
           | Inr out \<Rightarrow> Inr (out, path_stem original_filename @ ''.txt'', ''text/plain''))
      \<and> ((\<exists>s. python_str s \<and> 13 \<notin> set s \<and> utf8_encode s = Inr d) \<longrightarrow>
           document_convert lib w input_path ''txt'' original_filename
             = Inr (d, path_stem original_filename @ ''.txt'', ''text/plain'')))"
proof (intro conjI impI)
  assume f: "files w input_path = Some d"
  {
    assume "lower (path_suffix input_path) = ''.pdf''"
    then show "document_convert lib w input_path ''pdf'' original_filename
        = Inr (d, path_stem original_filename @ ''.pdf'', ''application/pdf'')"
      using f by (simp add: document_convert_def convert_from_pdf_def read_bytes_def
          document_get_output_filename_def Let_def)
  }
  {
    assume "lower (path_suffix input_path) = ''.docx''"
    then show "document_convert lib w input_path ''docx'' original_filename
        = Inr (d, path_stem original_filename @ ''.docx'', docx_mime)"
      using f by (simp add: document_convert_def convert_from_docx_def read_bytes_def
          document_get_output_filename_def Let_def)
  }
  {
    assume t: "lower (path_suffix input_path) = ''.txt''"
    then show g: "document_convert lib w input_path ''txt'' original_filename
        = (case utf8_encode (read_text_ignore d) of
             Inl e \<Rightarrow> Inl e
           | Inr out \<Rightarrow> Inr (out, path_stem original_filename @ ''.txt'', ''text/plain''))"
      using f by (simp add: document_convert_def convert_from_txt_def read_bytes_def
          document_get_output_filename_def encode_utf8_as_def Let_def)
    assume "\<exists>s. python_str s \<and> 13 \<notin> set s \<and> utf8_encode s = Inr d"
    then obtain s where s: "python_str s" "13 \<notin> set s" "utf8_encode s = Inr d" by blast
    have "\<not> list_ex is_surrogate s"
      using s(3) by (auto simp: utf8_encode_def split: if_splits)
    then have "list_all scalar_value s"
      using s(1) by (auto simp: python_str_def scalar_value_def list_all_iff list_ex_iff)
    then have "read_text_ignore d = s" using s(2,3) by (rule read_text_encoded)
    then show "document_convert lib w input_path ''txt'' original_filename
             = Inr (d, path_stem original_filename @ ''.txt'', ''text/plain'')"
      using g s(3) by simp
  }
qed

lemma identity_paths:
  "path_suffix ''/tmp/tmpx.pdf'' = ''.pdf''" "path_suffix ''/tmp/tmpx.docx'' = ''.docx''"
  "path_stem ''Report.PDF'' = ''Report''" "path_stem ''cv.docx'' = ''cv''"
  by (simp_all add: path_eval)

lemma identity_lower: "lower ''.pdf'' = ''.pdf''" "lower ''.docx'' = ''.docx''"
  by code_simp+

theorem document_identity_conversion_witness:
  "document_convert failing_libs (world_with ''/tmp/tmpx.pdf'' [0x25, 0x50, 0x44, 0x46])
      ''/tmp/tmpx.pdf'' ''pdf'' ''Report.PDF''
     = Inr ([0x25, 0x50, 0x44, 0x46], ''Report.pdf'', ''application/pdf'')
   \<and> document_convert failing_libs (world_with ''/tmp/tmpx.docx'' [0x50, 0x4B, 0x03, 0x04])
      ''/tmp/tmpx.docx'' ''docx'' ''cv.docx''
     = Inr ([0x50, 0x4B, 0x03, 0x04], ''cv.docx'', docx_mime)
   \<and> document_convert failing_libs (world_with ''/tmp/tmpx.txt'' [0x68, 0xC3, 0xA9])
      ''/tmp/tmpx.txt'' ''txt'' ''notes.txt''
     = Inr ([0x68, 0xC3, 0xA9], ''notes.txt'', ''text/plain'')"
proof -
  let ?wp = "world_with ''/tmp/tmpx.pdf'' [0x25, 0x50, 0x44, 0x46]"
  let ?wd = "world_with ''/tmp/tmpx.docx'' [0x50, 0x4B, 0x03, 0x04]"
  let ?w = "world_with ''/tmp/tmpx.txt'' [0x68, 0xC3, 0xA9]"
  have fp: "files ?wp ''/tmp/tmpx.pdf'' = Some [0x25, 0x50, 0x44, 0x46]"
    and fd: "files ?wd ''/tmp/tmpx.docx'' = Some [0x50, 0x4B, 0x03, 0x04]"
    and f: "files ?w ''/tmp/tmpx.txt'' = Some [0x68, 0xC3, 0xA9]"
    by (simp_all add: world_with_def)
  have pp: "lower (path_suffix ''/tmp/tmpx.pdf'') = ''.pdf''"
    and pd: "lower (path_suffix ''/tmp/tmpx.docx'') = ''.docx''"
    and p: "lower (path_suffix ''/tmp/tmpx.txt'') = ''.txt''"
    by (simp_all add: path_examples identity_paths lower_suffixes identity_lower)
  have e: "\<exists>s. python_str s \<and> 13 \<notin> set s \<and> utf8_encode s = Inr [0x68, 0xC3, 0xA9 :: byte]"
    by (rule exI[of _ "[0x68, 0xE9]"])
      (simp add: python_str_def utf8_encode_def encode_code_point_def is_surrogate_def)
  have 1: "document_convert failing_libs ?wp ''/tmp/tmpx.pdf'' ''pdf'' ''Report.PDF''
      = Inr ([0x25, 0x50, 0x44, 0x46], path_stem ''Report.PDF'' @ ''.pdf'', ''application/pdf'')"
    using document_identity_conversion[OF fp, of failing_libs "''Report.PDF''"] pp by blast
  have 2: "document_convert failing_libs ?wd ''/tmp/tmpx.docx'' ''docx'' ''cv.docx''
      = Inr ([0x50, 0x4B, 0x03, 0x04], path_stem ''cv.docx'' @ ''.docx'', docx_mime)"
    using document_identity_conversion[OF fd, of failing_libs "''cv.docx''"] pd by blast
  have 3: "document_convert failing_libs ?w ''/tmp/tmpx.txt'' ''txt'' ''notes.txt''
          = Inr ([0x68, 0xC3, 0xA9], path_stem ''notes.txt'' @ ''.txt'', ''text/plain'')"
    using document_identity_conversion[OF f, of failing_libs "''notes.txt''"] e p by blast
  show ?thesis using 1 2 3 by (simp add: path_examples identity_paths)
qed

text \<open>
  Claim C1 as stated fails for txt: a text file with a byte that is not UTF-8 comes back
  without that byte.
\<close>

theorem document_identity_counterexample:
  "files (world_with ''/tmp/tmpx.txt'' [0x61, 0xFF, 0x62]) ''/tmp/tmpx.txt'' = Some [0x61, 0xFF, 0x62]
   \<and> document_convert failing_libs (world_with ''/tmp/tmpx.txt'' [0x61, 0xFF, 0x62])
        ''/tmp/tmpx.txt'' ''txt'' ''notes.txt''
       = Inr ([0x61, 0x62], ''notes.txt'', ''text/plain'')
   \<and> [0x61, 0x62] \<noteq> [0x61, 0xFF, 0x62 :: byte]"
  by (simp add: document_convert_def path_examples lower_suffixes convert_from_txt_def
      read_bytes_def world_with_def read_text_ignore_def utf8_decode_ignore.simps utf8_step_def
      encode_utf8_as_def utf8_encode_def encode_code_point_def is_surrogate_def
      document_get_output_filename_def)

text \<open>
  Claim C2: whenever a converter (document, image, audio or video) returns, the output
  file name it returns is the stem of the original file name, a dot, and the target
  format lower-cased.
\<close>

theorem output_filename_rule:
  "(document_convert lib w input_path output_format original_filename = Inr (d, n, m)
      \<longrightarrow> n = path_stem original_filename @ ''.'' @ lower output_format)
   \<and> (image_convert lib w input_path output_format original_filename = Inr (d, n, m)
      \<longrightarrow> n = path_stem original_filename @ ''.'' @ lower output_format)
   \<and> (fst (audio_convert lib input_path output_format original_filename w) = Inr (d, n, m)
      \<longrightarrow> n = path_stem original_filename @ ''.'' @ lower output_format)
   \<and> (fst (video_convert lib input_path output_format original_filename w) = Inr (d, n, m)
      \<longrightarrow> n = path_stem original_filename @ ''.'' @ lower output_format)"
  by (intro conjI impI;
      (erule document_convert_name | erule image_convert_name
       | erule audio_convert_name | erule video_convert_name))

lemma eval_document:
  "document_convert working_libs (world_with ''/tmp/tmpx.txt'' [0x68, 0x69]) ''/tmp/tmpx.txt'' ''txt'' ''My.Notes.TXT''
     = Inr ([0x68, 0x69], ''My.Notes.txt'', ''text/plain'')"
  by (simp add: document_convert_def path_examples lower_suffixes convert_from_txt_def
      read_bytes_def world_with_def read_text_ignore_def utf8_decode_ignore.simps utf8_step_def
      encode_utf8_as_def utf8_encode_def encode_code_point_def is_surrogate_def
      document_get_output_filename_def)

lemma eval_image:
  "image_convert working_libs (world_with ''/tmp/in.jpg'' [0xFF, 0xD8]) ''/tmp/in.jpg'' ''PNG'' ''Photo.JPG''
     = Inr ([0x89, 0x50], ''Photo.png'', ''image/png'')"
  by (simp add: image_convert_def path_examples lower_suffixes read_bytes_def world_with_def
      working_libs_def convert_to_def image_mime_types_def image_get_output_filename_def Let_def)

lemma eval_audio:
  "fst (audio_convert working_libs ''/tmp/in.wav'' ''mp3'' ''song.wav''
          (world_with ''/tmp/in.wav'' [0x52, 0x49]))
     = Inr ([0x49, 0x44, 0x33], ''song.mp3'', ''audio/mpeg'')"
  by (simp add: audio_convert_def path_examples lower_suffixes read_bytes_def world_with_def
      working_libs_def audio_get_output_filename_def load_and_export_def load_audio_def
      specific_format_def export_audio_def NamedTemporaryFile_fresh export_audio_body_def
      export_arguments_def audio_mime_types_def unlink_if_exists_def Let_def)

lemma eval_video:
  "fst (video_convert working_libs ''/tmp/in.mp4'' ''WEBM'' ''clip.mp4''
          (world_with ''/tmp/in.mp4'' [0, 0, 0, 0x20]))
     = Inr ([0, 0, 0, 0x18], ''clip.webm'', ''video/mp4'')"
  by (simp add: video_convert_def path_examples lower_suffixes read_bytes_def world_with_def
      working_libs_def video_get_output_filename_def video_convert_try_def check_ffmpeg_def
      run_subprocess_def NamedTemporaryFile_fresh video_convert_body_def build_ffmpeg_command_def
      video_mime_types_def unlink_if_exists_def Let_def)

theorem output_filename_rule_witness:
  "document_convert working_libs (world_with ''/tmp/tmpx.txt'' [0x68, 0x69]) ''/tmp/tmpx.txt''
       ''txt'' ''My.Notes.TXT''
     = Inr ([0x68, 0x69], ''My.Notes.txt'', ''text/plain'')
   \<and> ''My.Notes.txt'' = path_stem ''My.Notes.TXT'' @ ''.'' @ lower ''txt''
   \<and> image_convert working_libs (world_with ''/tmp/in.jpg'' [0xFF, 0xD8]) ''/tmp/in.jpg''
         ''PNG'' ''Photo.JPG''
       = Inr ([0x89, 0x50], ''Photo.png'', ''image/png'')
   \<and> ''Photo.png'' = path_stem ''Photo.JPG'' @ ''.'' @ lower ''PNG''
   \<and> fst (audio_convert working_libs ''/tmp/in.wav'' ''mp3'' ''song.wav''
              (world_with ''/tmp/in.wav'' [0x52, 0x49]))
       = Inr ([0x49, 0x44, 0x33], ''song.mp3'', ''audio/mpeg'')
   \<and> ''song.mp3'' = path_stem ''song.wav'' @ ''.'' @ lower ''mp3''
   \<and> fst (video_convert working_libs ''/tmp/in.mp4'' ''WEBM'' ''clip.mp4''
              (world_with ''/tmp/in.mp4'' [0, 0, 0, 0x20]))
       = Inr ([0, 0, 0, 0x18], ''clip.webm'', ''video/mp4'')
   \<and> ''clip.webm'' = path_stem ''clip.mp4'' @ ''.'' @ lower ''WEBM''"
  using eval_document eval_image eval_audio eval_video
    output_filename_rule[THEN conjunct1, rule_format, OF eval_document]
    output_filename_rule[THEN conjunct2, THEN conjunct1, rule_format, OF eval_image]
    output_filename_rule[THEN conjunct2, THEN conjunct2, THEN conjunct1, rule_format, OF eval_audio]
    output_filename_rule[THEN conjunct2, THEN conjunct2, THEN conjunct2, rule_format, OF eval_video]
  by blast

text \<open>
  Claim C3 against the code: a doc input with target docx is handed to
  \<open>_convert_from_docx\<close>, whose passthrough test looks at the target format only. The
  bytes of the doc file come back unchanged under a docx name and the docx MIME type: no
  text extraction and no rendering take place (here every library call would fail).
\<close>

theorem doc_to_docx_returns_input_bytes:
  "document_convert failing_libs (world_with ''/tmp/tmpx.doc'' [0xD0, 0xCF, 0x11, 0xE0])
     ''/tmp/tmpx.doc'' ''docx'' ''letter.doc''
   = Inr ([0xD0, 0xCF, 0x11, 0xE0], ''letter.docx'', docx_mime)"
  by (simp add: document_convert_def path_examples lower_suffixes convert_from_docx_def
      read_bytes_def world_with_def document_get_output_filename_def)

section \<open>What the audio and video converters do to the world\<close>








lemma export_audio_body_shape:
  assumes "export_audio_body lib a fmt n tmp w = (r, w')"
  shows "(files w' = files w \<or> (\<exists>x. files w' = (files w)(tmp \<mapsto> x)))
         \<and> (\<exists>ex. events w' = events w @ ex
                \<and> (\<forall>p. Tmp_created p \<notin> set ex) \<and> (\<forall>q g. Audio_loaded q g \<notin> set ex))"
proof (cases "export_arguments fmt")
  case None
  then show ?thesis using assms by (auto simp: export_audio_body_def)
next
  case (Some fk)
  obtain f k where fk: "fk = (f, k)" by (cases fk)
  show ?thesis
  proof (cases "audio_export lib a f k")
    case (Inl e)
    then have "files w' = files w" "events w' = events w @ [Audio_exported tmp f k]"
      using assms Some fk by (auto simp: export_audio_body_def Let_def)
    then show ?thesis by simp
  next
    case (Inr written)
    then have "files w' = (files w)(tmp \<mapsto> written)" "events w' = events w @ [Audio_exported tmp f k]"
      using assms Some fk by (auto simp: export_audio_body_def Let_def read_bytes_def)
    then show ?thesis by auto
  qed
qed

lemma export_audio_shape:
  assumes "export_audio lib a fmt n w = (r, w')"
  shows "files w' = files w
         \<and> (\<exists>new. events w' = events w @ new
                \<and> (\<forall>p. Tmp_created p \<in> set new \<longrightarrow> files w p = None)
                \<and> (\<forall>q g. Audio_loaded q g \<notin> set new))"
proof -
  obtain t w1 where tmp: "NamedTemporaryFile (''.'' @ fmt) w = (t, w1)"
    by (cases "NamedTemporaryFile (''.'' @ fmt) w")
  from NamedTemporaryFile_cases[OF tmp] show ?thesis
  proof (elim disjE exE conjE)
    fix e assume "t = Inl e" "files w1 = files w" "events w1 = events w"
    then show ?thesis using assms tmp by (auto simp: export_audio_def)
  next
    fix p assume p: "t = Inr p" "files w p = None" "files w1 = (files w)(p \<mapsto> [])"
      "events w1 = events w @ [Tmp_created p]"
    obtain r2 w2 where body: "export_audio_body lib a fmt n p w1 = (r2, w2)"
      by (cases "export_audio_body lib a fmt n p w1")
    from export_audio_body_shape[OF body] obtain ex where
      f2: "files w2 = files w1 \<or> (\<exists>x. files w2 = (files w1)(p \<mapsto> x))"
      and e2: "events w2 = events w1 @ ex" "\<forall>q. Tmp_created q \<notin> set ex"
        "\<forall>q g. Audio_loaded q g \<notin> set ex"
      by blast
    have w': "w' = unlink_if_exists p w2"
      using assms tmp p(1) body by (simp add: export_audio_def)
    have ex2: "files w2 p \<noteq> None" using f2 p(3) by auto
    have "files w' = (files w2)(p := None)"
      using ex2 by (simp add: w' unlink_if_exists_def)
    also have "\<dots> = files w" using f2 p(2,3) by auto
    finally have fw: "files w' = files w" .
    have "events w' = events w @ ([Tmp_created p] @ ex @ [Tmp_unlinked p])"
      using ex2 e2(1) p(4) by (simp add: w' unlink_if_exists_def)
    moreover have "\<forall>q. Tmp_created q \<in> set ([Tmp_created p] @ ex @ [Tmp_unlinked p]) \<longrightarrow> files w q = None"
      using e2(2) p(2) by auto
    moreover have "\<forall>q g. Audio_loaded q g \<notin> set ([Tmp_created p] @ ex @ [Tmp_unlinked p])"
      using e2(3) by auto
    ultimately show ?thesis using fw by blast
  qed
qed

lemma load_audio_shape:
  "load_audio lib path f w = (r, w') \<Longrightarrow>
   files w' = files w \<and> events w' = events w @ [Audio_loaded path f]
   \<and> r = (case files w path of
             None \<Rightarrow> Inl (Exn FileNotFoundError
                           (''[Errno 2] No such file or directory: '' @ [CHR 0x27] @ path @ [CHR 0x27]))
           | Some d \<Rightarrow> audio_from_file lib d f)"
  by (auto simp: load_audio_def Let_def read_bytes_def split: sum.splits option.splits)

lemma load_and_export_shape:
  assumes "load_and_export lib path f fmt n w = (r, w')"
  shows "files w' = files w
         \<and> (\<exists>new. events w' = events w @ Audio_loaded path f # new
                \<and> (\<forall>p. Tmp_created p \<in> set new \<longrightarrow> files w p = None)
                \<and> (\<forall>q g. Audio_loaded q g \<notin> set new))"
proof -
  obtain l w1 where l: "load_audio lib path f w = (l, w1)" by (cases "load_audio lib path f w")
  note s1 = load_audio_shape[OF l]
  show ?thesis
  proof (cases l)
    case (Inl e)
    then have "w' = w1" using assms l by (simp add: load_and_export_def)
    then show ?thesis using s1 by simp
  next
    case (Inr a)
    then have x: "export_audio lib a fmt n w1 = (r, w')"
      using assms l by (simp add: load_and_export_def)
    from export_audio_shape[OF x] obtain new where
      "files w' = files w1" "events w' = events w1 @ new"
      "\<forall>p. Tmp_created p \<in> set new \<longrightarrow> files w1 p = None"
      "\<forall>q g. Audio_loaded q g \<notin> set new" by blast
    then show ?thesis using s1 by auto
  qed
qed

lemma load_and_export_load_fails:
  assumes "files w path = Some d" "audio_from_file lib d f = Inl e"
  shows "load_and_export lib path f fmt n w
           = (Inl e, w\<lparr>events := events w @ [Audio_loaded path f]\<rparr>)"
  using assms by (simp add: load_and_export_def load_audio_def read_bytes_def Let_def)

section \<open>The audio fallback, the ffmpeg command and the temporary files\<close>

lemmas audio_eval = audio_convert_def path_examples lower_suffixes read_bytes_def world_with_def
  working_libs_def audio_get_output_filename_def load_and_export_def load_audio_def
  specific_format_def export_audio_def NamedTemporaryFile_fresh export_audio_body_def
  export_arguments_def audio_mime_types_def unlink_if_exists_def Let_def


text \<open>
  Claim C7, as the code has it. When the loader for the declared input extension throws,
  the generic loader is called exactly once, right after it. The conversion fails only
  when the first attempt and the fallback attempt both fail, and then with one error that
  carries both messages; an attempt is a load followed by the export, so it fails when its
  loader throws or when its export throws. A fallback attempt that succeeds is the result.
\<close>

theorem audio_fallback:
  "(specific_format (drop 1 (lower (path_suffix input_path))) = Some f
      \<and> files w input_path = Some d \<and> audio_from_file lib d (Some f) = Inl e
      \<longrightarrow> (\<exists>rest. events (snd (audio_convert lib input_path output_format original_filename w))
                     = events w @ [Audio_loaded input_path (Some f), Audio_loaded input_path None] @ rest
                 \<and> (\<forall>q g. Audio_loaded q g \<notin> set rest)))
   \<and> (fst (audio_convert lib input_path output_format original_filename w) = Inl x
      \<longrightarrow> (\<exists>e1 w1 e2.
             load_and_export lib input_path (specific_format (drop 1 (lower (path_suffix input_path))))
                 output_format (audio_get_output_filename original_filename output_format) w
               = (Inl e1, w1)
             \<and> fst (load_and_export lib input_path None output_format
                       (audio_get_output_filename original_filename output_format) w1) = Inl e2
             \<and> x = Exn Exception (''Failed to convert audio: '' @ str_of e1
                                     @ ''. Fallback also failed: '' @ str_of e2)))
   \<and> (load_and_export lib input_path (specific_format (drop 1 (lower (path_suffix input_path))))
           output_format (audio_get_output_filename original_filename output_format) w
         = (Inl e1, w1)
       \<and> fst (load_and_export lib input_path None output_format
                 (audio_get_output_filename original_filename output_format) w1) = Inr r
      \<longrightarrow> fst (audio_convert lib input_path output_format original_filename w) = Inr r)"
proof (intro conjI impI)
  let ?n = "audio_get_output_filename original_filename output_format"
  let ?ext = "drop 1 (lower (path_suffix input_path))"
  {
    assume a: "specific_format ?ext = Some f \<and> files w input_path = Some d
      \<and> audio_from_file lib d (Some f) = Inl e"
    let ?w1 = "w\<lparr>events := events w @ [Audio_loaded input_path (Some f)]\<rparr>"
    have p: "load_and_export lib input_path (Some f) output_format ?n w = (Inl e, ?w1)"
      using a by (intro load_and_export_load_fails) auto
    obtain r2 w2 where fb: "load_and_export lib input_path None output_format ?n ?w1 = (r2, w2)"
      by (cases "load_and_export lib input_path None output_format ?n ?w1")
    from load_and_export_shape[OF fb] obtain new where
      n: "events w2 = events ?w1 @ Audio_loaded input_path None # new"
      "\<forall>q g. Audio_loaded q g \<notin> set new" by blast
    have "snd (audio_convert lib input_path output_format original_filename w) = w2"
      using a p fb by (cases r2) (simp_all add: audio_convert_def Let_def)
    then show "\<exists>rest. events (snd (audio_convert lib input_path output_format original_filename w))
                     = events w @ [Audio_loaded input_path (Some f), Audio_loaded input_path None] @ rest
                 \<and> (\<forall>q g. Audio_loaded q g \<notin> set rest)"
      using n by simp
  }
  {
    assume "fst (audio_convert lib input_path output_format original_filename w) = Inl x"
    then show "\<exists>e1 w1 e2.
             load_and_export lib input_path (specific_format ?ext) output_format ?n w = (Inl e1, w1)
             \<and> fst (load_and_export lib input_path None output_format ?n w1) = Inl e2
             \<and> x = Exn Exception (''Failed to convert audio: '' @ str_of e1
                                     @ ''. Fallback also failed: '' @ str_of e2)"
      by (auto simp: audio_convert_def Let_def split: prod.splits sum.splits)
  }
  {
    assume "load_and_export lib input_path (specific_format ?ext) output_format ?n w = (Inl e1, w1)
       \<and> fst (load_and_export lib input_path None output_format ?n w1) = Inr r"
    then show "fst (audio_convert lib input_path output_format original_filename w) = Inr r"
      by (auto simp: audio_convert_def Let_def split: prod.splits sum.splits)
  }
qed

lemma eval_specific_failing:
  "audio_convert specific_failing_libs ''/tmp/in.wav'' ''mp3'' ''song.wav''
     (world_with ''/tmp/in.wav'' [0x52, 0x49])
   = (Inr ([0x49, 0x44, 0x33], ''song.mp3'', ''audio/mpeg''),
      \<lparr>files = [''/tmp/in.wav'' \<mapsto> [0x52, 0x49]],
       tmp_names = (\<lambda>i. replicate (Suc i) CHR ''x''), tmp_next = 1,
       events = [Audio_loaded ''/tmp/in.wav'' (Some ''wav''), Audio_loaded ''/tmp/in.wav'' None,
                 Tmp_created ''/tmp/tmpx.mp3'',
                 Audio_exported ''/tmp/tmpx.mp3'' ''mp3'' [(''bitrate'', ''192k'')],
                 Tmp_unlinked ''/tmp/tmpx.mp3'']\<rparr>)"
  by (simp add: audio_eval specific_failing_libs_def fun_upd_twist)

lemma eval_export_failing:
  "audio_convert export_failing_libs ''/tmp/in.wav'' ''mp3'' ''song.wav''
     (world_with ''/tmp/in.wav'' [0x52, 0x49])
   = (Inl (Exn Exception
             ''Failed to convert audio: encoder missing. Fallback also failed: encoder missing''),
      \<lparr>files = [''/tmp/in.wav'' \<mapsto> [0x52, 0x49]],
       tmp_names = (\<lambda>i. replicate (Suc i) CHR ''x''), tmp_next = 2,
       events = [Audio_loaded ''/tmp/in.wav'' (Some ''wav''),
                 Tmp_created ''/tmp/tmpx.mp3'',
                 Audio_exported ''/tmp/tmpx.mp3'' ''mp3'' [(''bitrate'', ''192k'')],
                 Tmp_unlinked ''/tmp/tmpx.mp3'',
                 Audio_loaded ''/tmp/in.wav'' None,
                 Tmp_created ''/tmp/tmpxx.mp3'',
                 Audio_exported ''/tmp/tmpxx.mp3'' ''mp3'' [(''bitrate'', ''192k'')],
                 Tmp_unlinked ''/tmp/tmpxx.mp3'']\<rparr>)"
  by (simp add: audio_eval export_failing_libs_def fun_upd_twist)

lemma eval_specific_attempts:
  "load_and_export specific_failing_libs ''/tmp/in.wav'' (Some ''wav'') ''mp3''
       (audio_get_output_filename ''song.wav'' ''mp3'') (world_with ''/tmp/in.wav'' [0x52, 0x49])
     = (Inl (Exn Other_error ''decoding failed''),
        (world_with ''/tmp/in.wav'' [0x52, 0x49])
          \<lparr>events := [Audio_loaded ''/tmp/in.wav'' (Some ''wav'')]\<rparr>)"
  "fst (load_and_export specific_failing_libs ''/tmp/in.wav'' None ''mp3''
       (audio_get_output_filename ''song.wav'' ''mp3'')
       ((world_with ''/tmp/in.wav'' [0x52, 0x49])
          \<lparr>events := [Audio_loaded ''/tmp/in.wav'' (Some ''wav'')]\<rparr>))
     = Inr ([0x49, 0x44, 0x33], ''song.mp3'', ''audio/mpeg'')"
  by (simp_all add: audio_eval specific_failing_libs_def)

theorem audio_fallback_witness:
  "audio_from_file specific_failing_libs [0x52, 0x49] (Some ''wav'') = Inl (Exn Other_error ''decoding failed'')
   \<and> fst (audio_convert specific_failing_libs ''/tmp/in.wav'' ''mp3'' ''song.wav''
            (world_with ''/tmp/in.wav'' [0x52, 0x49]))
       = Inr ([0x49, 0x44, 0x33], ''song.mp3'', ''audio/mpeg'')
   \<and> events (snd (audio_convert specific_failing_libs ''/tmp/in.wav'' ''mp3'' ''song.wav''
                 (world_with ''/tmp/in.wav'' [0x52, 0x49])))
       = [Audio_loaded ''/tmp/in.wav'' (Some ''wav''), Audio_loaded ''/tmp/in.wav'' None,
          Tmp_created ''/tmp/tmpx.mp3'',
          Audio_exported ''/tmp/tmpx.mp3'' ''mp3'' [(''bitrate'', ''192k'')],
          Tmp_unlinked ''/tmp/tmpx.mp3'']
   \<and> (\<exists>e1 w1 e2.
         load_and_export export_failing_libs ''/tmp/in.wav'' (Some ''wav'') ''mp3''
             (audio_get_output_filename ''song.wav'' ''mp3'') (world_with ''/tmp/in.wav'' [0x52, 0x49])
           = (Inl e1, w1)
         \<and> fst (load_and_export export_failing_libs ''/tmp/in.wav'' None ''mp3''
                   (audio_get_output_filename ''song.wav'' ''mp3'') w1) = Inl e2
         \<and> str_of e1 = ''encoder missing'' \<and> str_of e2 = ''encoder missing'')"
proof -
  let ?w = "world_with ''/tmp/in.wav'' [0x52, 0x49]"
  have sf: "specific_format (drop 1 (lower (path_suffix ''/tmp/in.wav''))) = Some ''wav''"
    by (simp add: path_examples lower_suffixes specific_format_def)
  have h: "specific_format (drop 1 (lower (path_suffix ''/tmp/in.wav''))) = Some ''wav''
      \<and> files ?w ''/tmp/in.wav'' = Some [0x52, 0x49]
      \<and> audio_from_file specific_failing_libs [0x52, 0x49] (Some ''wav'')
           = Inl (Exn Other_error ''decoding failed'')"
    using sf by (simp add: world_with_def specific_failing_libs_def working_libs_def)
  note t = audio_fallback[where lib = specific_failing_libs and input_path = "''/tmp/in.wav''"
      and output_format = "''mp3''" and original_filename = "''song.wav''" and w = ?w]
  from t[THEN conjunct1, rule_format, OF h]
  obtain rest where "events (snd (audio_convert specific_failing_libs ''/tmp/in.wav'' ''mp3'' ''song.wav'' ?w))
      = events ?w @ [Audio_loaded ''/tmp/in.wav'' (Some ''wav''), Audio_loaded ''/tmp/in.wav'' None] @ rest"
    by (elim exE conjE)
  note t3 = audio_fallback[where lib = specific_failing_libs and input_path = "''/tmp/in.wav''"
      and output_format = "''mp3''" and original_filename = "''song.wav''" and w = ?w
      and ?e1.0 = "Exn Other_error ''decoding failed''"
      and ?w1.0 = "?w\<lparr>events := [Audio_loaded ''/tmp/in.wav'' (Some ''wav'')]\<rparr>"
      and r = "([0x49, 0x44, 0x33], ''song.mp3'', ''audio/mpeg'')"]
  have third: "fst (audio_convert specific_failing_libs ''/tmp/in.wav'' ''mp3'' ''song.wav'' ?w)
      = Inr ([0x49, 0x44, 0x33], ''song.mp3'', ''audio/mpeg'')"
  proof (rule t3[THEN conjunct2, THEN conjunct2, rule_format])
    show "load_and_export specific_failing_libs ''/tmp/in.wav''
         (specific_format (drop 1 (lower (path_suffix ''/tmp/in.wav'')))) ''mp3''
         (audio_get_output_filename ''song.wav'' ''mp3'') ?w
       = (Inl (Exn Other_error ''decoding failed''),
          ?w\<lparr>events := [Audio_loaded ''/tmp/in.wav'' (Some ''wav'')]\<rparr>)
       \<and> fst (load_and_export specific_failing_libs ''/tmp/in.wav'' None ''mp3''
           (audio_get_output_filename ''song.wav'' ''mp3'')
           (?w\<lparr>events := [Audio_loaded ''/tmp/in.wav'' (Some ''wav'')]\<rparr>))
         = Inr ([0x49, 0x44, 0x33], ''song.mp3'', ''audio/mpeg'')"
      unfolding sf using eval_specific_attempts by (intro conjI)
  qed
  note u = audio_fallback[where lib = export_failing_libs and input_path = "''/tmp/in.wav''"
      and output_format = "''mp3''" and original_filename = "''song.wav''" and w = ?w
      and x = "Exn Exception
        ''Failed to convert audio: encoder missing. Fallback also failed: encoder missing''"]
  have fails: "fst (audio_convert export_failing_libs ''/tmp/in.wav'' ''mp3'' ''song.wav'' ?w)
      = Inl (Exn Exception
          ''Failed to convert audio: encoder missing. Fallback also failed: encoder missing'')"
    by (simp add: eval_export_failing)
  from u[THEN conjunct2, THEN conjunct1, rule_format, OF fails]
  obtain e1 w1 e2 where b:
    "load_and_export export_failing_libs ''/tmp/in.wav''
        (specific_format (drop 1 (lower (path_suffix ''/tmp/in.wav'')))) ''mp3''
        (audio_get_output_filename ''song.wav'' ''mp3'') ?w = (Inl e1, w1)"
    "fst (load_and_export export_failing_libs ''/tmp/in.wav'' None ''mp3''
        (audio_get_output_filename ''song.wav'' ''mp3'') w1) = Inl e2"
    "Exn Exception ''Failed to convert audio: encoder missing. Fallback also failed: encoder missing''
      = Exn Exception (''Failed to convert audio: '' @ str_of e1
                         @ ''. Fallback also failed: '' @ str_of e2)"
    by (elim exE conjE)
  have l1: "load_and_export export_failing_libs ''/tmp/in.wav'' (Some ''wav'') ''mp3''
        (audio_get_output_filename ''song.wav'' ''mp3'') ?w
      = (Inl (Exn Other_error ''encoder missing''),
         \<lparr>files = [''/tmp/in.wav'' \<mapsto> [0x52, 0x49]],
          tmp_names = (\<lambda>i. replicate (Suc i) CHR ''x''), tmp_next = 1,
          events = [Audio_loaded ''/tmp/in.wav'' (Some ''wav''), Tmp_created ''/tmp/tmpx.mp3'',
                    Audio_exported ''/tmp/tmpx.mp3'' ''mp3'' [(''bitrate'', ''192k'')],
                    Tmp_unlinked ''/tmp/tmpx.mp3'']\<rparr>)"
    by (simp add: audio_eval export_failing_libs_def)
  have e1: "e1 = Exn Other_error ''encoder missing''" and w1: "w1 = \<lparr>files = [''/tmp/in.wav'' \<mapsto> [0x52, 0x49]],
          tmp_names = (\<lambda>i. replicate (Suc i) CHR ''x''), tmp_next = 1,
          events = [Audio_loaded ''/tmp/in.wav'' (Some ''wav''), Tmp_created ''/tmp/tmpx.mp3'',
                    Audio_exported ''/tmp/tmpx.mp3'' ''mp3'' [(''bitrate'', ''192k'')],
                    Tmp_unlinked ''/tmp/tmpx.mp3'']\<rparr>"
    using b(1) l1 unfolding sf by simp_all
  have e2: "e2 = Exn Other_error ''encoder missing''"
    using b(2) unfolding w1 by (simp add: audio_eval export_failing_libs_def)
  have "\<exists>e1 w1 e2.
         load_and_export export_failing_libs ''/tmp/in.wav'' (Some ''wav'') ''mp3''
             (audio_get_output_filename ''song.wav'' ''mp3'') ?w = (Inl e1, w1)
         \<and> fst (load_and_export export_failing_libs ''/tmp/in.wav'' None ''mp3''
                   (audio_get_output_filename ''song.wav'' ''mp3'') w1) = Inl e2
         \<and> str_of e1 = ''encoder missing'' \<and> str_of e2 = ''encoder missing''"
    using b(1,2) e1 e2 unfolding sf by (intro exI[of _ e1] exI[of _ w1] exI[of _ e2]) simp
  then show ?thesis using h third by (simp add: eval_specific_failing)
qed

text \<open>
  Claim C7 as stated fails: the error that carries both messages is also produced when
  both loaders succeed and the export throws in both attempts.
\<close>

theorem audio_fallback_counterexample:
  "audio_from_file export_failing_libs [0x52, 0x49] (Some ''wav'') = Inr ()
   \<and> audio_from_file export_failing_libs [0x52, 0x49] None = Inr ()
   \<and> fst (audio_convert export_failing_libs ''/tmp/in.wav'' ''mp3'' ''song.wav''
            (world_with ''/tmp/in.wav'' [0x52, 0x49]))
       = Inl (Exn Exception
               ''Failed to convert audio: encoder missing. Fallback also failed: encoder missing'')"
  by (simp add: audio_eval export_failing_libs_def)









section \<open>The dispatcher\<close>

lemma job_results_jobs: "map fst (job_results lib jobs w) = jobs"
  by (induction jobs arbitrary: w) (auto split: prod.splits)

lemma recorded_count:
  "length (recorded_files rs) + length (recorded_errors rs) + length (filter returned_empty rs)
     = length rs"
  by (induction rs rule: recorded_files.induct) auto

lemma process_conversions_records:
  "process_conversions lib jobs st w = (st', w') \<Longrightarrow>
   converted_files st' = converted_files st @ recorded_files (job_results lib jobs w)
   \<and> error_messages st' = error_messages st @ recorded_errors (job_results lib jobs w)"
proof (induction jobs arbitrary: st w)
  case Nil
  then show ?case by simp
next
  case (Cons j jobs)
  obtain r w1 where c: "convert_file lib (job_file j) (job_output_format j) (job_file_type j) w = (r, w1)"
    by (cases "convert_file lib (job_file j) (job_output_format j) (job_file_type j) w")
  show ?case
  proof (cases r)
    case (Inl e)
    then have "process_conversions lib jobs
        (st\<lparr>error_messages := error_messages st @ [(file_name (job_file j), str_of e)]\<rparr>) w1 = (st', w')"
      using Cons.prems c by simp
    from Cons.IH[OF this] show ?thesis using c Inl by simp
  next
    case (Inr a)
    obtain d n m where a: "a = (d, n, m)" by (cases a)
    show ?thesis
    proof (cases "d = []")
      case True
      then have "process_conversions lib jobs st w1 = (st', w')"
        using Cons.prems c Inr a by simp
      from Cons.IH[OF this] show ?thesis using c Inr a True by simp
    next
      case False
      then have "process_conversions lib jobs
          (st\<lparr>converted_files := converted_files st @
                 [\<lparr>cf_filename = n, cf_data = d, cf_mime_type = m\<rparr>],
               conversion_history := conversion_history st @ [(file_name (job_file j), n)]\<rparr>) w1
            = (st', w')"
        using Cons.prems c Inr a by simp
      from Cons.IH[OF this] show ?thesis using c Inr a False by simp
    qed
  qed
qed

text \<open>
  Claim C4, as the code has it: the dispatcher handles the jobs in submission order and
  records at most one outcome for each job, in that order: an entry of the converted
  files when the conversion returns data, an error message with the name of the file
  when it raises, and nothing when it returns empty data. The number of recorded outcomes
  is the number of jobs less the number of jobs whose conversion returned empty data.
\<close>

theorem process_conversions_outcomes:
  "process_conversions lib conversion_jobs st w = (st', w') \<Longrightarrow>
   map fst (job_results lib conversion_jobs w) = conversion_jobs
   \<and> converted_files st'
       = converted_files st @ recorded_files (job_results lib conversion_jobs w)
   \<and> error_messages st'
       = error_messages st @ recorded_errors (job_results lib conversion_jobs w)
   \<and> length (recorded_files (job_results lib conversion_jobs w))
       + length (recorded_errors (job_results lib conversion_jobs w))
       + length (filter returned_empty (job_results lib conversion_jobs w))
       = length conversion_jobs"
proof -
  assume p: "process_conversions lib conversion_jobs st w = (st', w')"
  have "length (job_results lib conversion_jobs w) = length conversion_jobs"
    using job_results_jobs[of lib conversion_jobs w] by (metis length_map)
  then show ?thesis
    using process_conversions_records[OF p] job_results_jobs[of lib conversion_jobs w]
      recorded_count[of "job_results lib conversion_jobs w"]
    by simp
qed

lemmas document_eval = document_convert_def convert_from_txt_def
  read_bytes_def read_text_ignore_def utf8_decode_ignore.simps utf8_step_def
  encode_utf8_as_def utf8_encode_def encode_code_point_def is_surrogate_def
  document_get_output_filename_def

lemma batch_paths:
  "path_suffix ''/tmp/tmpx.txt'' = ''.txt''" "path_suffix ''/tmp/tmpxx.txt'' = ''.txt''"
  "path_suffix ''/tmp/tmpxxx.png'' = ''.png''"
  "path_stem ''notes.txt'' = ''notes''" "path_stem ''empty.txt'' = ''empty''"
  "path_stem ''photo.png'' = ''photo''"
  by (simp_all add: path_eval)

lemma batch_lower: "lower ''.png'' = ''.png''" "lower ''jpg'' = ''jpg''"
  by code_simp+

lemma eval_empty_upload:
  "convert_file failing_libs \<lparr>file_name = ''empty.txt'', file_bytes = []\<rparr> ''txt'' ''document''
     empty_world
   = (Inr ([], ''empty.txt'', ''text/plain''),
      \<lparr>files = Map.empty, tmp_names = (\<lambda>i. replicate (Suc i) CHR ''x''), tmp_next = 1,
       events = [Tmp_created ''/tmp/tmpx.txt'', Tmp_unlinked ''/tmp/tmpx.txt'']\<rparr>)"
  by (simp add: convert_file_def empty_world_def NamedTemporaryFile_fresh Let_def batch_paths
      lower_suffixes document_eval unlink_if_exists_def)

text \<open>
  Claim C4 as stated fails: a batch with one job, an empty text file to be converted to
  txt, leaves no outcome at all: no converted file and no error message.
\<close>

theorem process_conversions_counterexample:
  "converted_files (fst (process_conversions failing_libs
                           [upload ''empty.txt'' [] ''txt'' ''document''] empty_session empty_world))
     = []
   \<and> error_messages (fst (process_conversions failing_libs
                             [upload ''empty.txt'' [] ''txt'' ''document''] empty_session empty_world))
     = []
   \<and> length [upload ''empty.txt'' [] ''txt'' ''document''] = 1"
  by (simp add: upload_def eval_empty_upload empty_session_def)

lemma eval_example_batch:
  "job_results failing_libs example_batch empty_world
   = [(upload ''notes.txt'' [0x68, 0x69] ''txt'' ''document'',
       Inr ([0x68, 0x69], ''notes.txt'', ''text/plain'')),
      (upload ''empty.txt'' [] ''txt'' ''document'', Inr ([], ''empty.txt'', ''text/plain'')),
      (upload ''photo.png'' [0x00] ''jpg'' ''image'',
       Inl (Exn Exception ''Failed to convert image: cannot identify image file''))]"
  by (simp add: example_batch_def upload_def convert_file_def empty_world_def
      NamedTemporaryFile_fresh Let_def batch_paths batch_lower lower_suffixes document_eval
      unlink_if_exists_def image_convert_def image_get_output_filename_def failing_libs_def)

theorem process_conversions_outcomes_witness:
  "converted_files (fst (process_conversions failing_libs example_batch empty_session empty_world))
     = [\<lparr>cf_filename = ''notes.txt'', cf_data = [0x68, 0x69], cf_mime_type = ''text/plain''\<rparr>]
   \<and> error_messages (fst (process_conversions failing_libs example_batch empty_session empty_world))
     = [(''photo.png'', ''Failed to convert image: cannot identify image file'')]
   \<and> length (filter returned_empty (job_results failing_libs example_batch empty_world)) = 1
   \<and> length example_batch = 3"
proof -
  obtain st' w' where
    p: "process_conversions failing_libs example_batch empty_session empty_world = (st', w')"
    by (cases "process_conversions failing_libs example_batch empty_session empty_world")
  note t = process_conversions_outcomes[OF p]
  have "converted_files st'
      = [\<lparr>cf_filename = ''notes.txt'', cf_data = [0x68, 0x69], cf_mime_type = ''text/plain''\<rparr>]"
    using t by (simp add: eval_example_batch empty_session_def)
  moreover have "error_messages st'
      = [(''photo.png'', ''Failed to convert image: cannot identify image file'')]"
    using t by (simp add: eval_example_batch empty_session_def upload_def)
  moreover have "length (filter returned_empty (job_results failing_libs example_batch empty_world)) = 1"
    by (simp add: eval_example_batch)
  moreover have "length example_batch = 3" by (simp add: example_batch_def)
  ultimately show ?thesis by (simp add: p)
qed

end
